theory Spec2Isabelle
  imports Complex_Main "HOL-Library.AList" "HOL-Library.Word"
begin

section \<open>Python values the server handles\<close>

text \<open>
  The exceptions of the Python runtime that the modelled code can meet, and FastAPI's
  \<open>HTTPException(status_code, detail)\<close>. A handler's failure is the left summand of its
  result: either the \<open>HTTPException\<close> it raised, or another exception that left the handler
  unhandled (which the framework answers with status 500).
\<close>

datatype pyexc = ValueError | OverflowError | TypeError | IndexError | IntegrityError | OSError

datatype failure = HTTPException nat string | Unhandled pyexc

fun status_of :: "failure \<Rightarrow> nat" where
  "status_of (HTTPException code detail) = code"
| "status_of (Unhandled e) = 500"

section \<open>The datetime values of modules/functions.py\<close>

text \<open>
  A \<open>datetime.datetime\<close> object: its calendar fields and its \<open>tzinfo\<close>, which is absent
  (a naive datetime) or a fixed UTC offset, kept in microseconds. An aware datetime in UTC, as
  \<open>astimezone(timezone.utc)\<close> and \<open>datetime.now(timezone.utc)\<close> return it, is represented by
  its instant: the microseconds since 0001-01-01 00:00:00 UTC. Python compares two aware
  datetimes by their instants.
\<close>

record pydatetime =
  dt_year :: int
  dt_month :: int
  dt_day :: int
  dt_hour :: int
  dt_minute :: int
  dt_second :: int
  dt_microsecond :: int
  dt_tzinfo :: "int option"

type_synonym instant = int

definition is_leap :: "int \<Rightarrow> bool" where
  "is_leap y = (y mod 4 = 0 \<and> (y mod 100 \<noteq> 0 \<or> y mod 400 = 0))"

definition days_before_year :: "int \<Rightarrow> int" where
  "days_before_year year = (let y = year - 1 in y * 365 + y div 4 - y div 100 + y div 400)"

definition DAYS_IN_MONTH :: "int list" where
  "DAYS_IN_MONTH = [31, 28, 31, 30, 31, 30, 31, 31, 30, 31, 30, 31]"

text \<open>Both month tables are read with a month between 1 and 12 only.\<close>

definition days_in_month :: "int \<Rightarrow> int \<Rightarrow> int" where
  "days_in_month y m = (if m = 2 \<and> is_leap y then 29 else DAYS_IN_MONTH ! nat (m - 1))"

definition days_before_month :: "int \<Rightarrow> int \<Rightarrow> int" where
  "days_before_month y m =
     sum_list (take (nat (m - 1)) DAYS_IN_MONTH) + (if m > 2 \<and> is_leap y then 1 else 0)"

definition ymd2ord :: "int \<Rightarrow> int \<Rightarrow> int \<Rightarrow> int" where
  "ymd2ord y m d = days_before_year y + days_before_month y m + d"

text \<open>\<open>ord2ymd\<close> is the inverse of \<open>ymd2ord\<close> as the datetime module computes it.\<close>

definition ord2ymd :: "int \<Rightarrow> int \<times> int \<times> int" where
  "ord2ymd ordinal =
     (let n = ordinal - 1;
          n400 = n div 146097; n = n mod 146097;
          n100 = n div 36524; n = n mod 36524;
          n4 = n div 1461; n = n mod 1461;
          n1 = n div 365; n = n mod 365;
          year = n400 * 400 + 1 + n100 * 100 + n4 * 4 + n1
      in if n1 = 4 \<or> n100 = 4 then (year - 1, 12, 31)
         else let leapyear = (n1 = 3 \<and> (n4 \<noteq> 24 \<or> n100 = 3));
                  month = (n + 50) div 32;
                  preceding = sum_list (take (nat (month - 1)) DAYS_IN_MONTH)
                              + (if month > 2 \<and> leapyear then 1 else 0)
              in if preceding > n
                 then let month' = month - 1;
                          preceding' = preceding - (DAYS_IN_MONTH ! nat (month' - 1)
                                       + (if month' = 2 \<and> leapyear then 1 else 0))
                      in (year, month', n - preceding' + 1)
                 else (year, month, n - preceding + 1))"

definition MAXORDINAL :: int where
  "MAXORDINAL = 3652059"

definition US_PER_DAY :: int where
  "US_PER_DAY = 86400000000"

text \<open>The wall-clock reading of a datetime in microseconds, its \<open>tzinfo\<close> left aside.\<close>

definition wall_micros :: "pydatetime \<Rightarrow> int" where
  "wall_micros d =
     (ymd2ord (dt_year d) (dt_month d) (dt_day d) - 1) * US_PER_DAY
     + ((dt_hour d * 60 + dt_minute d) * 60 + dt_second d) * 1000000 + dt_microsecond d"

text \<open>The constructor \<open>datetime(...)\<close> checks every field and raises ValueError.\<close>

definition check_fields :: "pydatetime \<Rightarrow> bool" where
  "check_fields d =
     (1 \<le> dt_year d \<and> dt_year d \<le> 9999 \<and> 1 \<le> dt_month d \<and> dt_month d \<le> 12
      \<and> 1 \<le> dt_day d \<and> dt_day d \<le> days_in_month (dt_year d) (dt_month d)
      \<and> 0 \<le> dt_hour d \<and> dt_hour d \<le> 23 \<and> 0 \<le> dt_minute d \<and> dt_minute d \<le> 59
      \<and> 0 \<le> dt_second d \<and> dt_second d \<le> 59
      \<and> 0 \<le> dt_microsecond d \<and> dt_microsecond d \<le> 999999)"

definition new_datetime ::
  "int \<Rightarrow> int \<Rightarrow> int \<Rightarrow> int \<Rightarrow> int \<Rightarrow> int \<Rightarrow> int \<Rightarrow> int option \<Rightarrow> pyexc + pydatetime" where
  "new_datetime y m d hh mm ss us tz =
     (let dt = \<lparr>dt_year = y, dt_month = m, dt_day = d, dt_hour = hh, dt_minute = mm,
                dt_second = ss, dt_microsecond = us, dt_tzinfo = tz\<rparr>
      in if check_fields dt then Inr dt else Inl ValueError)"

text \<open>
  \<open>d.astimezone(timezone.utc)\<close>. An aware datetime is moved by its own offset; a result
  outside the years 1 to 9999 raises OverflowError. A naive one is taken as local time of
  the host: \<open>tz\<close> gives the host's UTC offset, in seconds, at a wall-clock reading; it is
  the environment of the process and a parameter of the model. To find that offset the
  datetime module reads the host's local time at the wall-clock reading taken as UTC and a
  day before the instant it finds, and raises ValueError when one of them lies outside the
  years 1 to 9999: so for every reading within the first day of year 1, and for a reading
  that the offset moves past the end of year 9999. Then the datetime is moved by the offset
  like an aware one.
\<close>

definition astimezone_utc :: "(int \<Rightarrow> int) \<Rightarrow> pydatetime \<Rightarrow> pyexc + instant" where
  "astimezone_utc tz d =
     (let w = wall_micros d
      in case dt_tzinfo d of
           Some off \<Rightarrow>
             if 0 \<le> w - off \<and> w - off < MAXORDINAL * US_PER_DAY then Inr (w - off)
             else Inl OverflowError
         | None \<Rightarrow>
             let off = tz w * 1000000
             in if w + off < 0 \<or> MAXORDINAL * US_PER_DAY \<le> w + off \<or> w < US_PER_DAY
                then Inl ValueError
                else if 0 \<le> w - off \<and> w - off < MAXORDINAL * US_PER_DAY then Inr (w - off)
                else Inl OverflowError)"

text \<open>The instant of a UTC calendar reading, for stating results.\<close>

definition utc_instant :: "int \<Rightarrow> int \<Rightarrow> int \<Rightarrow> int \<Rightarrow> int \<Rightarrow> int \<Rightarrow> int \<Rightarrow> instant" where
  "utc_instant y m d hh mm ss us =
     (ymd2ord y m d - 1) * US_PER_DAY + ((hh * 60 + mm) * 60 + ss) * 1000000 + us"

subsection \<open>Parsing\<close>

definition is_digit :: "char \<Rightarrow> bool" where
  "is_digit c = (48 \<le> (of_char c :: nat) \<and> (of_char c :: nat) \<le> 57)"

definition digit_val :: "char \<Rightarrow> int" where
  "digit_val c = int (of_char c) - 48"

definition parse_digits :: "string \<Rightarrow> int option" where
  "parse_digits s =
     (if s \<noteq> [] \<and> list_all is_digit s
      then Some (foldl (\<lambda>a c. 10 * a + digit_val c) 0 s) else None)"

text \<open>Two digits at the head of a string, and the rest of the string.\<close>

definition two_digits :: "string \<Rightarrow> (int \<times> string) option" where
  "two_digits s =
     (if length s < 2 then None
      else map_option (\<lambda>v. (v, drop 2 s)) (parse_digits (take 2 s)))"

text \<open>
  \<open>datetime.fromisoformat\<close>, as Python 3.11 implements it: on the UTF-8 bytes of the
  string, which a zero byte ends. A string of the model holds characters below U+0100,
  which take two bytes each from U+0080 on. \<open>byte_at\<close> reads the byte at a position and
  the zero byte behind the last one; the parser never reads further.
\<close>

definition utf8 :: "string \<Rightarrow> string" where
  "utf8 s =
     concat (map (\<lambda>c. if (of_char c :: nat) < 128 then [c]
                       else [char_of (192 + (of_char c :: nat) div 64),
                             char_of (128 + (of_char c :: nat) mod 64)]) s)"

definition byte_at :: "string \<Rightarrow> nat \<Rightarrow> char" where
  "byte_at b i = (if i < length b then b ! i else CHR 0x00)"

text \<open>
  A fixed number of digits from a position on, added to the value read so far: the value
  and the position behind the digits.
\<close>

fun parse_digits_at :: "string \<Rightarrow> nat \<Rightarrow> int \<Rightarrow> nat \<Rightarrow> (int \<times> nat) option" where
  "parse_digits_at b p var 0 = Some (var, p)"
| "parse_digits_at b p var (Suc n) =
     (if is_digit (byte_at b p)
      then parse_digits_at b (p + 1) (10 * var + digit_val (byte_at b p)) n
      else None)"

text \<open>
  Where the date ends: behind \<open>YYYY-MM-DD\<close>, \<open>YYYYMMDD\<close>, or a week date \<open>YYYY-Www\<close>,
  \<open>YYYYWww\<close>, \<open>YYYY-Www-d\<close>, \<open>YYYYWwwd\<close>, told apart by the bytes at 4 and 5 and, for a
  week date, by the digits that follow. The string has seven characters at least. The one
  case without a position, \<open>YYYY-Www-\<close> and nothing behind, is a string that the date
  parser refuses.
\<close>

definition find_isoformat_datetime_separator :: "string \<Rightarrow> nat option" where
  "find_isoformat_datetime_separator b =
     (let len = length b
      in if len = 7 then Some 7
         else if byte_at b 4 = CHR ''-'' then
           (if byte_at b 5 = CHR ''W'' then
              (if len < 8 then None
               else if len > 8 \<and> byte_at b 8 = CHR ''-'' then
                 (if len = 9 then None
                  else if len > 10 \<and> is_digit (byte_at b 10) then Some 8
                  else Some 10)
               else Some 8)
            else Some 10)
         else if byte_at b 4 = CHR ''W'' then
           (let idx = 7 + length (takeWhile is_digit (drop 7 b))
            in if idx < 9 then Some idx else if even idx then Some 7 else Some 8)
         else Some 8)"

text \<open>
  A week date becomes a calendar date. For the year 0000, which the four digits can spell,
  every week gives a date before year 1, which the constructor refuses.
\<close>

definition weekday :: "int \<Rightarrow> int \<Rightarrow> int \<Rightarrow> int" where
  "weekday y m d = (ymd2ord y m d + 6) mod 7"

definition iso_week1_monday :: "int \<Rightarrow> int" where
  "iso_week1_monday year =
     (let first_day = ymd2ord year 1 1;
          first_weekday = (first_day + 6) mod 7;
          week1_monday = first_day - first_weekday
      in if first_weekday > 3 then week1_monday + 7 else week1_monday)"

definition iso_to_ymd :: "int \<Rightarrow> int \<Rightarrow> int \<Rightarrow> (int \<times> int \<times> int) option" where
  "iso_to_ymd iso_year iso_week iso_day =
     (if (iso_week \<le> 0 \<or> iso_week \<ge> 53)
         \<and> \<not> (iso_week = 53
              \<and> (weekday iso_year 1 1 = 3 \<or> (weekday iso_year 1 1 = 2 \<and> is_leap iso_year)))
      then None
      else if iso_day \<le> 0 \<or> iso_day \<ge> 8 then None
      else Some (ord2ymd (iso_week1_monday iso_year + (iso_week - 1) * 7 + iso_day - 1)))"

definition parse_isoformat_date :: "string \<Rightarrow> nat \<Rightarrow> (int \<times> int \<times> int) option" where
  "parse_isoformat_date b len =
     (case parse_digits_at b 0 0 4 of
        None \<Rightarrow> None
      | Some (year, p0) \<Rightarrow>
          let uses_separator = (byte_at b p0 = CHR ''-'');
              p1 = (if uses_separator then p0 + 1 else p0)
          in if byte_at b p1 = CHR ''W'' then
               (case parse_digits_at b (p1 + 1) 0 2 of
                  None \<Rightarrow> None
                | Some (iso_week, p2) \<Rightarrow>
                    if p2 < len then
                      (if uses_separator \<and> byte_at b p2 \<noteq> CHR ''-'' then None
                       else case parse_digits_at b (if uses_separator then p2 + 1 else p2) 0 1 of
                           None \<Rightarrow> None
                         | Some (iso_day, p3) \<Rightarrow> iso_to_ymd year iso_week iso_day)
                    else iso_to_ymd year iso_week 1)
             else
               (case parse_digits_at b p1 0 2 of
                  None \<Rightarrow> None
                | Some (month, p2) \<Rightarrow>
                    if uses_separator \<and> byte_at b p2 \<noteq> CHR ''-'' then None
                    else case parse_digits_at b (if uses_separator then p2 + 1 else p2) 0 2 of
                        None \<Rightarrow> None
                      | Some (day, p3) \<Rightarrow> Some (year, month, day)))"

text \<open>
  The loop over hour, minute and second of \<open>parse_hh_mm_ss_ff\<close>, on the bytes from \<open>p\<close> up
  to \<open>p_end\<close>. Each field is two digits; the byte behind the hour tells whether colons
  separate the fields. The loop returns when the byte behind a field is the last one before
  \<open>p_end\<close> or lies behind it, with 1 unless that byte is the zero byte, or goes on to the
  fraction: behind a point or a comma, behind the third field and its colon, or right behind
  the third field without colons.
\<close>

datatype fields = Returned nat "int list" | Fraction nat "int list"

function time_fields :: "string \<Rightarrow> nat \<Rightarrow> nat \<Rightarrow> bool \<Rightarrow> nat \<Rightarrow> int list \<Rightarrow> fields option" where
  "time_fields t p_end i has_separator p vals =
     (if 3 \<le> i then Some (Fraction p vals)
      else case parse_digits_at t p 0 2 of
          None \<Rightarrow> None
        | Some (v, p1) \<Rightarrow>
            let c = byte_at t p1;
                sep = (if i = 0 then c = CHR '':'' else has_separator)
            in if p_end \<le> p1 + 1
               then Some (Returned (if c \<noteq> CHR 0x00 then 1 else 0) (vals[i := v]))
               else if sep \<and> c = CHR '':''
               then time_fields t p_end (i + 1) sep (p1 + 1) (vals[i := v])
               else if c = CHR ''.'' \<or> c = CHR '',''
               then Some (Fraction (p1 + 1) (vals[i := v]))
               else if \<not> sep
               then time_fields t p_end (i + 1) sep p1 (vals[i := v])
               else None)"
  by pat_completeness auto
termination
  by (relation "measure (\<lambda>(t, p_end, i, has_separator, p, vals). 3 - i)") auto

declare time_fields.simps [simp del]

definition correction :: "int list" where
  "correction = [100000, 10000, 1000, 100, 10]"

text \<open>
  The fraction is read from its first six digits at most, fewer digits scaled to
  microseconds, and further digits are skipped. The result is 1 when a byte other than the
  zero byte follows, else 0, with the four fields.
\<close>

definition parse_hh_mm_ss_ff :: "string \<Rightarrow> nat \<Rightarrow> nat \<Rightarrow> (nat \<times> int \<times> int \<times> int \<times> int) option" where
  "parse_hh_mm_ss_ff t p p_end =
     (case time_fields t p_end 0 True p [0, 0, 0] of
        None \<Rightarrow> None
      | Some (Returned rv vals) \<Rightarrow> Some (rv, vals ! 0, vals ! 1, vals ! 2, 0)
      | Some (Fraction q vals) \<Rightarrow>
          let len_remains = p_end - q;
              to_parse = (if len_remains \<ge> 6 then 6 else len_remains)
          in case parse_digits_at t q 0 to_parse of
               None \<Rightarrow> None
             | Some (us, q1) \<Rightarrow>
                 let microsecond =
                       (if to_parse < 6 then us * correction ! (to_parse - 1) else us);
                     q2 = q1 + length (takeWhile is_digit (drop q1 t))
                 in Some (if byte_at t q2 \<noteq> CHR 0x00 then 1 else 0,
                          vals ! 0, vals ! 1, vals ! 2, microsecond))"

text \<open>
  The time part, the bytes behind the separator: the time runs up to the first \<open>Z\<close>, plus
  or minus sign, and the offset is what follows it. The result is the four time fields and,
  when there is an offset, its seconds and microseconds.
\<close>

definition find_tzinfo :: "string \<Rightarrow> nat" where
  "find_tzinfo t =
     (if t = [] then 1
      else length (takeWhile (\<lambda>c. c \<noteq> CHR ''Z'' \<and> c \<noteq> CHR ''+'' \<and> c \<noteq> CHR ''-'') t))"

definition parse_isoformat_time ::
  "string \<Rightarrow> ((int \<times> int \<times> int \<times> int) \<times> (int \<times> int) option) option" where
  "parse_isoformat_time t =
     (let p_end = length t;
          tzinfo_pos = find_tzinfo t
      in case parse_hh_mm_ss_ff t 0 tzinfo_pos of
           None \<Rightarrow> None
         | Some (rv, comps) \<Rightarrow>
             if tzinfo_pos = p_end then (if rv = 1 then None else Some (comps, None))
             else if byte_at t tzinfo_pos = CHR ''Z'' then
               (if byte_at t (tzinfo_pos + 1) \<noteq> CHR 0x00 then None else Some (comps, Some (0, 0)))
             else
               let tzsign = (if byte_at t tzinfo_pos = CHR ''-'' then - 1 else 1)
               in (case parse_hh_mm_ss_ff t (tzinfo_pos + 1) p_end of
                     None \<Rightarrow> None
                   | Some (rv, tzhour, tzminute, tzsecond, tzmicrosecond) \<Rightarrow>
                       if rv \<noteq> 0 then None
                       else Some (comps,
                                  Some (tzsign * (tzhour * 3600 + tzminute * 60 + tzsecond),
                                        tzsign * tzmicrosecond))))"

text \<open>
  The \<open>tzinfo\<close> of the result: none without an offset, UTC when the seconds of the offset
  are 0, else \<open>timezone(timedelta(seconds, microseconds))\<close>, which raises ValueError for an
  offset that is not strictly between minus and plus 24 hours.
\<close>

definition tzinfo_from_isoformat_results :: "(int \<times> int) option \<Rightarrow> pyexc + int option" where
  "tzinfo_from_isoformat_results r =
     (case r of
        None \<Rightarrow> Inr None
      | Some (tzoffset, tz_useconds) \<Rightarrow>
          if tzoffset = 0 then Inr (Some 0)
          else let td = tzoffset * 1000000 + tz_useconds
               in if - US_PER_DAY < td \<and> td < US_PER_DAY then Inr (Some td)
                  else Inl ValueError)"

text \<open>The separator is one character, whatever it is: its first byte tells its width.\<close>

definition separator_width :: "char \<Rightarrow> nat" where
  "separator_width c =
     (let v = (of_char c :: nat)
      in if v < 128 then 1 else if v div 16 = 14 then 3 else if v div 16 = 15 then 4 else 2)"

definition fromisoformat :: "string \<Rightarrow> pyexc + pydatetime" where
  "fromisoformat date_string =
     (if length date_string < 7 then Inl ValueError
      else let b = utf8 date_string
        in case find_isoformat_datetime_separator b of
             None \<Rightarrow> Inl ValueError
           | Some separator_location \<Rightarrow>
               (case parse_isoformat_date b separator_location of
                  None \<Rightarrow> Inl ValueError
                | Some (y, m, d) \<Rightarrow>
                    if length b > separator_location then
                      (case parse_isoformat_time
                              (drop (separator_location
                                     + separator_width (byte_at b separator_location)) b) of
                         None \<Rightarrow> Inl ValueError
                       | Some ((hh, mm, ss, us), tz) \<Rightarrow>
                           (case tzinfo_from_isoformat_results tz of
                              Inl e \<Rightarrow> Inl e
                            | Inr tzinfo \<Rightarrow> new_datetime y m d hh mm ss us tzinfo))
                    else new_datetime y m d 0 0 0 0 None))"

text \<open>
  \<open>datetime.strptime(s, "%Y-%m-%d %H:%M:%S")\<close>. The format compiles to a regular expression
  that is matched from the start of the string, the alternatives of a field tried in their
  order with backtracking into the rest of the pattern: a two-digit reading of a field comes
  before its one-digit reading, and the day also reads a space and a digit. A match that
  leaves text over raises ValueError, as does a string without a match and a field the
  datetime constructor refuses. The space of the format stands for one or more characters
  of white space, which below U+0100 are the characters of \<open>is_space\<close>.
\<close>

definition is_space :: "char \<Rightarrow> bool" where
  "is_space c = ((of_char c :: nat) \<in> {9, 10, 11, 12, 13, 28, 29, 30, 31, 32, 133, 160})"

definition expect :: "char \<Rightarrow> string \<Rightarrow> (string \<Rightarrow> 'a option) \<Rightarrow> 'a option" where
  "expect c s k = (case s of [] \<Rightarrow> None | x # r \<Rightarrow> if x = c then k r else None)"

definition one_digit :: "(int \<Rightarrow> bool) \<Rightarrow> string \<Rightarrow> (int \<Rightarrow> string \<Rightarrow> 'a option) \<Rightarrow> 'a option" where
  "one_digit ok s k =
     (case s of
        [] \<Rightarrow> None
      | c # r \<Rightarrow> if is_digit c \<and> ok (digit_val c) then k (digit_val c) r else None)"

definition alt_field ::
  "(int \<Rightarrow> bool) \<Rightarrow> (int \<Rightarrow> bool) \<Rightarrow> string \<Rightarrow> (int \<Rightarrow> string \<Rightarrow> 'a option) \<Rightarrow> 'a option" where
  "alt_field ok2 ok1 s k =
     (case (case two_digits s of
              Some (v, r) \<Rightarrow> if ok2 v then k v r else None
            | None \<Rightarrow> None) of
        Some x \<Rightarrow> Some x
      | None \<Rightarrow> one_digit ok1 s k)"

definition day_field :: "string \<Rightarrow> (int \<Rightarrow> string \<Rightarrow> 'a option) \<Rightarrow> 'a option" where
  "day_field s k =
     (case alt_field (\<lambda>v. 1 \<le> v \<and> v \<le> 31) (\<lambda>v. 1 \<le> v) s k of
        Some x \<Rightarrow> Some x
      | None \<Rightarrow> expect CHR '' '' s (\<lambda>r. one_digit (\<lambda>v. 1 \<le> v) r k))"

definition spaces :: "string \<Rightarrow> (string \<Rightarrow> 'a option) \<Rightarrow> 'a option" where
  "spaces s k = (case s of [] \<Rightarrow> None | c # r \<Rightarrow> if is_space c then k (dropWhile is_space r) else None)"

definition strptime_match :: "string \<Rightarrow> ((int \<times> int \<times> int \<times> int \<times> int \<times> int) \<times> string) option" where
  "strptime_match s =
     (if length s < 4 then None
      else case parse_digits (take 4 s) of
        None \<Rightarrow> None
      | Some y \<Rightarrow>
          expect CHR ''-'' (drop 4 s) (\<lambda>r.
          alt_field (\<lambda>v. 1 \<le> v \<and> v \<le> 12) (\<lambda>v. 1 \<le> v) r (\<lambda>m r.
          expect CHR ''-'' r (\<lambda>r.
          day_field r (\<lambda>d r.
          spaces r (\<lambda>r.
          alt_field (\<lambda>v. v \<le> 23) (\<lambda>v. True) r (\<lambda>hh r.
          expect CHR '':'' r (\<lambda>r.
          alt_field (\<lambda>v. v \<le> 59) (\<lambda>v. True) r (\<lambda>mm r.
          expect CHR '':'' r (\<lambda>r.
          alt_field (\<lambda>v. v \<le> 61) (\<lambda>v. True) r (\<lambda>ss r.
          Some ((y, m, d, hh, mm, ss), r))))))))))))"

definition strptime :: "string \<Rightarrow> pyexc + pydatetime" where
  "strptime s =
     (case strptime_match s of
        None \<Rightarrow> Inl ValueError
      | Some ((y, m, d, hh, mm, ss), rest) \<Rightarrow>
          if rest \<noteq> [] then Inl ValueError else new_datetime y m d hh mm ss 0 None)"

subsection \<open>fetch\_date\<close>

text \<open>
  The \<open>try\<close> of \<open>fetch_date\<close>: a ValueError of the first attempt runs the fallback, whose own
  exceptions leave the function (a handler of the same \<open>try\<close> does not guard another); any
  other exception of the first attempt is printed and the function returns \<open>None\<close>, here
  \<open>Inr None\<close>.
\<close>

definition fetch_date :: "(int \<Rightarrow> int) \<Rightarrow> string \<Rightarrow> pyexc + instant option" where
  "fetch_date tz date_str =
     (case (case fromisoformat date_str of Inl e \<Rightarrow> Inl e | Inr d \<Rightarrow> astimezone_utc tz d) of
        Inr t \<Rightarrow> Inr (Some t)
      | Inl ValueError \<Rightarrow>
          (case strptime date_str of
             Inl e \<Rightarrow> Inl e
           | Inr d \<Rightarrow> (case astimezone_utc tz d of Inl e \<Rightarrow> Inl e | Inr t \<Rightarrow> Inr (Some t)))
      | Inl e \<Rightarrow> Inr None)"

subsection \<open>Printing\<close>

text \<open>
  What the database stores for a timestamp is text: \<open>CURRENT_TIMESTAMP\<close> is
  \<open>YYYY-MM-DD HH:MM:SS\<close> in UTC, and a datetime bound to a statement is adapted with
  \<open>isoformat(" ")\<close>.
\<close>

definition digit_char :: "nat \<Rightarrow> char" where
  "digit_char n = char_of (48 + n)"

fun str_nat :: "nat \<Rightarrow> string" where
  "str_nat n = (if n < 10 then [digit_char n] else str_nat (n div 10) @ [digit_char (n mod 10)])"

declare str_nat.simps [simp del]

definition zfill :: "nat \<Rightarrow> nat \<Rightarrow> string" where
  "zfill width n = (let s = str_nat n in replicate (width - length s) CHR ''0'' @ s)"

definition format_date_time :: "char \<Rightarrow> instant \<Rightarrow> string" where
  "format_date_time sep t =
     (let (y, m, d) = ord2ymd (t div US_PER_DAY + 1);
          secs = (t mod US_PER_DAY) div 1000000
      in zfill 4 (nat y) @ ''-'' @ zfill 2 (nat m) @ ''-'' @ zfill 2 (nat d) @ [sep]
         @ zfill 2 (nat (secs div 3600)) @ '':'' @ zfill 2 (nat ((secs div 60) mod 60))
         @ '':'' @ zfill 2 (nat (secs mod 60)))"

definition isoformat :: "char \<Rightarrow> instant \<Rightarrow> string" where
  "isoformat sep t =
     format_date_time sep t
     @ (if t mod 1000000 = 0 then [] else ''.'' @ zfill 6 (nat (t mod 1000000)))
     @ ''+00:00''"

definition CURRENT_TIMESTAMP :: "instant \<Rightarrow> string" where
  "CURRENT_TIMESTAMP t = format_date_time CHR '' '' t"

text \<open>
  \<open>datetime.now(timezone.utc) + timedelta(days=n)\<close>: OverflowError outside the years
  1 to 9999.
\<close>

definition add_days :: "instant \<Rightarrow> int \<Rightarrow> pyexc + instant" where
  "add_days t n =
     (let u = t + n * US_PER_DAY
      in if 0 \<le> u \<and> u < MAXORDINAL * US_PER_DAY then Inr u else Inl OverflowError)"

section \<open>The authorization guard of modules/functions.py\<close>

text \<open>\<open>ApiConfig.MASTER_KEY = os.getenv("API_MASTER_KEY") or "master_key"\<close>.\<close>

definition MASTER_KEY :: "string option \<Rightarrow> string" where
  "MASTER_KEY getenv = (case getenv of None \<Rightarrow> ''master_key'' | Some k \<Rightarrow> if k = [] then ''master_key'' else k)"

text \<open>\<open>sub in s\<close> on strings, and \<open>s.split(sep)\<close> with a one-character separator.\<close>

fun is_substring :: "string \<Rightarrow> string \<Rightarrow> bool" where
  "is_substring sub [] = (sub = [])"
| "is_substring sub (c # cs) = (take (length sub) (c # cs) = sub \<or> is_substring sub cs)"

fun split_on :: "char \<Rightarrow> string \<Rightarrow> string list" where
  "split_on sep [] = [[]]"
| "split_on sep (c # cs) =
     (let r = split_on sep cs in if c = sep then [] # r else (c # hd r) # tl r)"

text \<open>
  The guard reads the Authorization header of the request: absent (\<open>None\<close>) or a string.
  \<open>authorization.split(" ")[1]\<close> raises IndexError when the split has one part.
\<close>

definition extract_token :: "string \<Rightarrow> pyexc + string" where
  "extract_token authorization =
     (if is_substring ''Bearer'' authorization
      then (let parts = split_on CHR '' '' authorization
            in if 1 < length parts then Inr (parts ! 1) else Inl IndexError)
      else Inr authorization)"

definition authorize_admin :: "string \<Rightarrow> string option \<Rightarrow> failure + bool" where
  "authorize_admin key header =
     (case header of
        None \<Rightarrow> Inl (HTTPException 401 ''Unauthorized'')
      | Some authorization \<Rightarrow>
          if authorization = [] then Inl (HTTPException 401 ''Unauthorized'')
          else (case extract_token authorization of
              Inl e \<Rightarrow> Inl (Unhandled e)
            | Inr token \<Rightarrow>
                if token \<noteq> key then Inl (HTTPException 403 ''Forbidden'') else Inr True))"

section \<open>The rate limiter of modules/rate\_limiter.py\<close>

text \<open>
  One limiter holds \<open>times\<close>, \<open>seconds\<close> and, per client address, the deque of the times of
  its recent requests (a \<open>defaultdict\<close>: a client never seen has the empty deque). A time is
  a reading of \<open>time.time()\<close>, taken as an exact real number. \<open>deque(maxlen=times)\<close> raises
  ValueError for a negative \<open>times\<close>, and a full deque drops its head on append.
\<close>

record rate_limiter =
  rl_times :: int
  rl_seconds :: int
  rl_requests :: "string \<Rightarrow> real list"

definition RateLimiter :: "int \<Rightarrow> int \<Rightarrow> rate_limiter" where
  "RateLimiter n w = \<lparr>rl_times = n, rl_seconds = w, rl_requests = (\<lambda>c. [])\<rparr>"

definition deque_append :: "int \<Rightarrow> real list \<Rightarrow> real \<Rightarrow> real list" where
  "deque_append maxlen q x =
     (if maxlen = 0 then []
      else if maxlen \<le> int (length q) then tl q @ [x]
      else q @ [x])"

definition limiter_call :: "rate_limiter \<Rightarrow> string \<Rightarrow> real \<Rightarrow> (failure + unit) \<times> rate_limiter" where
  "limiter_call rl client_ip current_time =
     (if rl_times rl < 0 then (Inl (Unhandled ValueError), rl)
      else let request_times =
                 dropWhile (\<lambda>t. t \<le> current_time - real_of_int (rl_seconds rl))
                   (rl_requests rl client_ip)
        in if rl_times rl \<le> int (length request_times)
           then (Inl (HTTPException 429 ''Too many requests''),
                 rl\<lparr>rl_requests := (rl_requests rl)(client_ip := request_times)\<rparr>)
           else (Inr (),
                 rl\<lparr>rl_requests := (rl_requests rl)
                       (client_ip := deque_append (rl_times rl) request_times current_time)\<rparr>))"

text \<open>
  The limiter after a list of calls, each a client address and the clock reading of the
  call, whatever their outcomes; and the property of a limiter's state that its proofs
  rest on: every deque is sorted, within the capacity \<open>times\<close>, and holds no time after
  \<open>T\<close>.
\<close>

fun limiter_after :: "rate_limiter \<Rightarrow> (string \<times> real) list \<Rightarrow> rate_limiter" where
  "limiter_after rl [] = rl"
| "limiter_after rl ((client_ip, t) # calls) =
     limiter_after (snd (limiter_call rl client_ip t)) calls"

definition limiter_inv :: "rate_limiter \<Rightarrow> real \<Rightarrow> bool" where
  "limiter_inv rl T =
     (0 \<le> rl_times rl
      \<and> (\<forall>c. sorted (rl_requests rl c) \<and> int (length (rl_requests rl c)) \<le> rl_times rl
              \<and> (\<forall>t\<in>set (rl_requests rl c). t \<le> T)))"

section \<open>The files table of services/database.py\<close>

text \<open>
  One row of the table \<open>files\<close>. The timestamp columns hold text. The table is the list of
  its rows in insertion order, with the largest rowid ever given (the \<open>AUTOINCREMENT\<close>
  sequence). \<open>file_path\<close> is \<open>UNIQUE\<close>: an insert of a path already there raises
  IntegrityError. The counters are SQLite integers, taken as unbounded.
\<close>

record file_row =
  row_id :: int
  file_path :: string
  storage_path :: string
  file_name :: string
  file_type :: string
  file_size :: int
  access_count :: int
  last_accessed :: "string option"
  expires_at :: "string option"
  uploaded_at :: string

record files_table =
  tbl_rows :: "file_row list"
  tbl_seq :: int

definition select_by_path :: "files_table \<Rightarrow> string \<Rightarrow> file_row option" where
  "select_by_path t fp = find (\<lambda>r. file_path r = fp) (tbl_rows t)"

definition files_db_add_new_file ::
  "files_table \<Rightarrow> string \<Rightarrow> string \<Rightarrow> string \<Rightarrow> string \<Rightarrow> int \<Rightarrow> string \<Rightarrow> string option
     \<Rightarrow> pyexc + int \<times> files_table" where
  "files_db_add_new_file t fp sp fname ftype fsize uploaded expires =
     (if select_by_path t fp \<noteq> None then Inl IntegrityError
      else let lastrowid = tbl_seq t + 1
        in Inr (lastrowid,
             t\<lparr>tbl_rows := tbl_rows t @
                  [\<lparr>row_id = lastrowid, file_path = fp, storage_path = sp, file_name = fname,
                    file_type = ftype, file_size = fsize, access_count = 0,
                    last_accessed = None, expires_at = expires, uploaded_at = uploaded\<rparr>],
               tbl_seq := lastrowid\<rparr>))"

definition files_db_get_file_by_id :: "files_table \<Rightarrow> int \<Rightarrow> file_row option" where
  "files_db_get_file_by_id t file_id = find (\<lambda>r. row_id r = file_id) (tbl_rows t)"

text \<open>
  The \<open>UPDATE\<close> that \<open>get_file\<close> and \<open>update_file_access\<close> both run; \<open>db_now\<close> is the
  database's clock at the statement.
\<close>

definition files_db_update_file_access :: "instant \<Rightarrow> files_table \<Rightarrow> string \<Rightarrow> files_table" where
  "files_db_update_file_access db_now t fp =
     t\<lparr>tbl_rows :=
         map (\<lambda>r. if file_path r = fp
                  then r\<lparr>access_count := access_count r + 1,
                         last_accessed := Some (CURRENT_TIMESTAMP db_now)\<rparr>
                  else r)
           (tbl_rows t)\<rparr>"

text \<open>\<open>get_file\<close> returns the row as the \<open>SELECT\<close> read it, before its own update.\<close>

definition files_db_get_file :: "instant \<Rightarrow> files_table \<Rightarrow> string \<Rightarrow> file_row option \<times> files_table" where
  "files_db_get_file db_now t fp =
     (case select_by_path t fp of
        None \<Rightarrow> (None, t)
      | Some file_data \<Rightarrow> (Some file_data, files_db_update_file_access db_now t fp))"

definition files_db_delete_file :: "files_table \<Rightarrow> string \<Rightarrow> bool \<times> files_table" where
  "files_db_delete_file t fp =
     (select_by_path t fp \<noteq> None, t\<lparr>tbl_rows := filter (\<lambda>r. file_path r \<noteq> fp) (tbl_rows t)\<rparr>)"

section \<open>The storage directory and the state of the server\<close>

text \<open>
  The disk is the finite list of the paths that exist, each a file with its bytes or a
  directory; a path is the string the code passes to the operating system.
  \<open>os.remove\<close> raises OSError for a path that is missing or a directory.
\<close>

type_synonym bytes = "8 word list"

datatype node = File bytes | Directory

type_synonym disk = "(string \<times> node) list"

definition os_path_exists :: "disk \<Rightarrow> string \<Rightarrow> bool" where
  "os_path_exists d p = (map_of d p \<noteq> None)"

definition os_remove :: "disk \<Rightarrow> string \<Rightarrow> pyexc + disk" where
  "os_remove d p =
     (case map_of d p of Some (File b) \<Rightarrow> Inr (AList.delete p d) | _ \<Rightarrow> Inl OSError)"

text \<open>
  A task given to \<open>asyncio.create_task\<close> and not awaited runs after the handler that made
  it: the state keeps the tasks that are still to run.
\<close>

datatype task = UpdateFileAccess string | AutoDeleteExpiredFile int

record server =
  srv_db :: files_table
  srv_disk :: disk
  srv_tasks :: "task list"
  srv_draws :: nat

text \<open>
  What a handler reads from outside the state during one call: the host's time zone, the
  clock as \<open>datetime.now(timezone.utc)\<close> and as the database read it, the value of the
  default argument \<open>uploaded_at\<close> (evaluated once, when the module is loaded), the results
  of \<open>uuid.uuid4()\<close> by draw number, \<open>mimetypes.guess_type\<close>, \<open>ApiConfig.BASE_URL\<close> and the
  image encoder of \<open>_compress_bytes_sync\<close> (\<open>None\<close> when it raises). The host's file
  system is read through three more fields: the exception, if any, that
  \<open>open(path, "wb")\<close> raises for a path that does not exist yet (a name the file system
  refuses, a missing directory, no permission); the exception, if any, that
  \<open>buffer.write\<close> raises when the file at a path would grow to a number of bytes (a full
  disk); and \<open>str(e)\<close> of such an exception of the operating system on a path.
\<close>

record env =
  env_tz :: "int \<Rightarrow> int"
  env_now :: instant
  env_db_now :: instant
  env_import_time :: instant
  env_uuid4 :: "nat \<Rightarrow> string"
  env_guess_type :: "string \<Rightarrow> string option"
  env_base_url :: string
  env_compress :: "bytes \<Rightarrow> int \<Rightarrow> int option \<Rightarrow> bool \<Rightarrow> bool \<Rightarrow> bytes option"
  env_open_error :: "string \<Rightarrow> pyexc option"
  env_write_error :: "string \<Rightarrow> nat \<Rightarrow> pyexc option"
  env_str :: "pyexc \<Rightarrow> string \<Rightarrow> string"

datatype json =
  JNull | JBool bool | JInt int | JStr string | JObj "(string \<times> json) list" | JArr "json list"

datatype content = JSONContent json | FileContent string | StreamContent string

record response =
  resp_status :: nat
  resp_content :: content
  resp_media_type :: string
  resp_headers :: "(string \<times> string) list"

definition JSONResponse :: "nat \<Rightarrow> json \<Rightarrow> response" where
  "JSONResponse code j =
     \<lparr>resp_status = code, resp_content = JSONContent j,
      resp_media_type = ''application/json'', resp_headers = []\<rparr>"

text \<open>
  The test every handler makes on the row it fetched:
  \<open>file_data.get("expires_at") and fetch_date(...) < datetime.now(timezone.utc)\<close>. A
  \<open>None\<close> from \<open>fetch_date\<close> makes the comparison raise TypeError.
\<close>

definition expired_check :: "(int \<Rightarrow> int) \<Rightarrow> instant \<Rightarrow> file_row \<Rightarrow> pyexc + bool" where
  "expired_check tz now file_data =
     (case expires_at file_data of
        None \<Rightarrow> Inr False
      | Some s \<Rightarrow>
          if s = [] then Inr False
          else (case fetch_date tz s of
              Inl e \<Rightarrow> Inl e
            | Inr None \<Rightarrow> Inl TypeError
            | Inr (Some t) \<Rightarrow> Inr (t < now)))"

section \<open>routes/file.py\<close>

definition startswith :: "string \<Rightarrow> string \<Rightarrow> bool" where
  "startswith s pre = (take (length pre) s = pre)"

definition resolve_content_type :: "(string \<Rightarrow> string option) \<Rightarrow> string \<Rightarrow> string \<Rightarrow> string" where
  "resolve_content_type guess ftype fname =
     (if ftype = [] \<or> ftype = ''application/octet-stream''
      then (case guess fname of
              None \<Rightarrow> ''application/octet-stream''
            | Some g \<Rightarrow> if g = [] then ''application/octet-stream'' else g)
      else ftype)"

definition set_cors_headers :: "response \<Rightarrow> response" where
  "set_cors_headers r =
     r\<lparr>resp_headers :=
         AList.update ''X-Content-Type-Options'' ''nosniff''
           (AList.update ''Access-Control-Allow-Origin'' ''*'' (resp_headers r))\<rparr>"

definition set_disposition :: "string \<Rightarrow> response \<Rightarrow> response" where
  "set_disposition v r = r\<lparr>resp_headers := AList.update ''Content-Disposition'' v (resp_headers r)\<rparr>"

text \<open>
  The responses of \<open>serve_file\<close>. Of a \<open>FileResponse\<close> the model keeps the path, the media
  type and the headers the handler sets itself.
\<close>

definition FileResponse :: "string \<Rightarrow> string \<Rightarrow> response" where
  "FileResponse path mt =
     \<lparr>resp_status = 200, resp_content = FileContent path, resp_media_type = mt, resp_headers = []\<rparr>"

definition StreamingResponse :: "string \<Rightarrow> string \<Rightarrow> response" where
  "StreamingResponse path mt =
     \<lparr>resp_status = 200, resp_content = StreamContent path, resp_media_type = mt, resp_headers = []\<rparr>"

definition shape_response :: "bool \<Rightarrow> string \<Rightarrow> string \<Rightarrow> string \<Rightarrow> response" where
  "shape_response as_download content_type sp fname =
     (if \<not> as_download \<and> (startswith content_type ''video/'' \<or> startswith content_type ''audio/'')
      then set_cors_headers (set_disposition (''inline; filename='' @ fname)
             (StreamingResponse sp content_type))
      else if \<not> as_download \<and> content_type = ''application/pdf''
      then set_cors_headers (set_disposition (''inline; filename='' @ fname)
             (FileResponse sp content_type))
      else if \<not> as_download \<and> startswith content_type ''image/''
      then set_cors_headers (FileResponse sp content_type)
      else set_disposition
             ((if as_download then ''attachment'' else ''inline'') @ ''; filename='' @ fname)
             (set_cors_headers (FileResponse sp content_type)))"

definition serve_file :: "env \<Rightarrow> server \<Rightarrow> string \<Rightarrow> bool \<Rightarrow> (failure + response) \<times> server" where
  "serve_file e st fp as_download =
     (case files_db_get_file (env_db_now e) (srv_db st) fp of
        (None, db') \<Rightarrow> (Inl (HTTPException 404 ''File not found''), st\<lparr>srv_db := db'\<rparr>)
      | (Some file_data, db') \<Rightarrow>
          let st1 = st\<lparr>srv_db := db'\<rparr>
          in (case expired_check (env_tz e) (env_now e) file_data of
                Inl x \<Rightarrow> (Inl (Unhandled x), st1)
              | Inr True \<Rightarrow> (Inl (HTTPException 410 ''File has expired''), st1)
              | Inr False \<Rightarrow>
                  if storage_path file_data = []
                     \<or> \<not> os_path_exists (srv_disk st1) (storage_path file_data)
                  then (Inl (HTTPException 404 ''File not found in storage''), st1)
                  else let content_type =
                             resolve_content_type (env_guess_type e) (file_type file_data)
                               (file_name file_data)
                    in (Inr (shape_response as_download content_type
                               (storage_path file_data) (file_name file_data)),
                        st1\<lparr>srv_tasks := srv_tasks st1 @ [UpdateFileAccess fp]\<rparr>)))"

definition view_file :: "env \<Rightarrow> server \<Rightarrow> string \<Rightarrow> (failure + response) \<times> server" where
  "view_file e st fp = serve_file e st fp False"

definition download_file :: "env \<Rightarrow> server \<Rightarrow> string \<Rightarrow> (failure + response) \<times> server" where
  "download_file e st fp = serve_file e st fp True"

section \<open>routes/delete.py\<close>

definition message :: "string \<Rightarrow> json" where
  "message m = JObj [(''message'', JStr m)]"

definition delete_file :: "env \<Rightarrow> server \<Rightarrow> string \<Rightarrow> (failure + response) \<times> server" where
  "delete_file e st fp =
     (case files_db_get_file (env_db_now e) (srv_db st) fp of
        (None, db') \<Rightarrow> (Inl (HTTPException 404 ''File not found''), st\<lparr>srv_db := db'\<rparr>)
      | (Some file_data, db') \<Rightarrow>
          let st1 = st\<lparr>srv_db := db'\<rparr>
          in (case expired_check (env_tz e) (env_now e) file_data of
                Inl x \<Rightarrow> (Inl (Unhandled x), st1)
              | Inr True \<Rightarrow> (Inl (HTTPException 410 ''File has expired''), st1)
              | Inr False \<Rightarrow>
                  if storage_path file_data = []
                     \<or> \<not> os_path_exists (srv_disk st1) (storage_path file_data)
                  then (Inl (HTTPException 404 ''File not found in storage''), st1)
                  else (case os_remove (srv_disk st1) (storage_path file_data) of
                      Inl x \<Rightarrow> (Inl (HTTPException 500 ''Error deleting file''), st1)
                    | Inr d' \<Rightarrow>
                        (Inr (JSONResponse 200 (message ''File deleted successfully'')),
                         st1\<lparr>srv_disk := d',
                             srv_db := snd (files_db_delete_file (srv_db st1) fp)\<rparr>))))"

section \<open>routes/compression.py\<close>

text \<open>
  The JSON body of a compress request, as the handler reads it: \<open>await request.json()\<close>
  or a \<open>body.get\<close> raises, or one of the four conversions \<open>int(...)\<close>, \<open>bool(...)\<close>
  raises, or the four parameters come out.
\<close>

datatype body_reading =
  BodyRaises pyexc | ConversionRaises pyexc | BodyParams int "int option" bool bool

text \<open>
  \<open>replace_file\<close> opens the path for writing and writes the new bytes; it returns
  \<open>False\<close> when that raises.
\<close>

definition replace_file :: "disk \<Rightarrow> string \<Rightarrow> bytes \<Rightarrow> bool \<times> disk" where
  "replace_file d sp new_bytes =
     (case map_of d sp of
        Some Directory \<Rightarrow> (False, d)
      | _ \<Rightarrow> (True, AList.update sp (File new_bytes) d))"

text \<open>
  The coroutine \<open>create_image_compression_task\<close>, run to its end: every exception in it is
  logged and the disk stays as it is.
\<close>

definition create_image_compression_task ::
  "env \<Rightarrow> disk \<Rightarrow> string \<Rightarrow> int \<Rightarrow> int option \<Rightarrow> bool \<Rightarrow> bool \<Rightarrow> disk" where
  "create_image_compression_task e d sp quality max_width to_webp lossless =
     (case map_of d sp of
        Some (File input_bytes) \<Rightarrow>
          (case env_compress e input_bytes quality max_width to_webp lossless of
             None \<Rightarrow> d
           | Some compressed_bytes \<Rightarrow> snd (replace_file d sp compressed_bytes))
      | _ \<Rightarrow> d)"

text \<open>
  The body of the handler's \<open>try\<close>. The handler awaits the task it creates, so the task has
  run to its end when the next statement of the handler runs.
\<close>

definition compress_file_body ::
  "env \<Rightarrow> server \<Rightarrow> string \<Rightarrow> body_reading \<Rightarrow> (failure + response) \<times> server" where
  "compress_file_body e st fp body =
     (case files_db_get_file (env_db_now e) (srv_db st) fp of
        (None, db') \<Rightarrow> (Inl (HTTPException 404 ''File not found''), st\<lparr>srv_db := db'\<rparr>)
      | (Some file_data, db') \<Rightarrow>
          let st1 = st\<lparr>srv_db := db'\<rparr>
          in (case expired_check (env_tz e) (env_now e) file_data of
                Inl x \<Rightarrow> (Inl (Unhandled x), st1)
              | Inr True \<Rightarrow> (Inl (HTTPException 410 ''File has expired''), st1)
              | Inr False \<Rightarrow>
                  (case body of
                     BodyRaises x \<Rightarrow> (Inl (Unhandled x), st1)
                   | ConversionRaises x \<Rightarrow>
                       if x = ValueError
                       then (Inr (JSONResponse 400 (message ''Invalid query parameters'')), st1)
                       else (Inl (Unhandled x), st1)
                   | BodyParams quality max_width to_webp lossless \<Rightarrow>
                       (Inr (JSONResponse 200 (message ''File compressed successfully'')),
                        st1\<lparr>srv_disk :=
                              create_image_compression_task e (srv_disk st1)
                                (storage_path file_data) quality max_width to_webp lossless\<rparr>))))"

text \<open>
  The handler: its \<open>except Exception\<close> takes every exception of the body, an
  \<open>HTTPException\<close> too, and returns the 500 response.
\<close>

definition compress_file :: "env \<Rightarrow> server \<Rightarrow> string \<Rightarrow> body_reading \<Rightarrow> response \<times> server" where
  "compress_file e st fp body =
     (case compress_file_body e st fp body of
        (Inl x, st') \<Rightarrow> (JSONResponse 500 (message ''Error compressing file''), st')
      | (Inr r, st') \<Rightarrow> (r, st'))"

section \<open>routes/upload.py\<close>

text \<open>\<open>os.path.splitext\<close> and \<open>os.path.join\<close> of a POSIX host.\<close>

fun rfind :: "char \<Rightarrow> string \<Rightarrow> int" where
  "rfind c [] = - 1"
| "rfind c (x # xs) = (let r = rfind c xs in if r \<ge> 0 then r + 1 else if x = c then 0 else - 1)"

definition splitext :: "string \<Rightarrow> string \<times> string" where
  "splitext p =
     (let sepIndex = rfind CHR ''/'' p; dotIndex = rfind CHR ''.'' p
      in if dotIndex > sepIndex
            \<and> list_ex (\<lambda>c. c \<noteq> CHR ''.'')
                (take (nat (dotIndex - (sepIndex + 1))) (drop (nat (sepIndex + 1)) p))
         then (take (nat dotIndex) p, drop (nat dotIndex) p)
         else (p, []))"

definition path_join :: "string \<Rightarrow> string \<Rightarrow> string" where
  "path_join a b =
     (if startswith b ''/'' then b
      else if a = [] \<or> last a = CHR ''/'' then a @ b
      else a @ ''/'' @ b)"

definition STORAGE_DIR :: string where
  "STORAGE_DIR = ''storage''"

definition get_safe_filename :: "string \<Rightarrow> string option \<Rightarrow> string" where
  "get_safe_filename uuid filename =
     (case filename of
        None \<Rightarrow> uuid @ ''.bin''
      | Some f \<Rightarrow>
          if f = [] then uuid @ ''.bin''
          else let ext = snd (splitext f) in uuid @ (if ext = [] then ''.bin'' else ext))"

function get_unique_loop :: "disk \<Rightarrow> string \<Rightarrow> string \<Rightarrow> nat \<Rightarrow> string" where
  "get_unique_loop d base ext counter =
     (if os_path_exists d (base @ ''_'' @ str_nat counter @ ext)
      then get_unique_loop d base ext (counter + 1)
      else base @ ''_'' @ str_nat counter @ ext)"
  by pat_completeness auto
termination
proof (relation "measure (\<lambda>(d, base, ext, counter).
                   10 ^ sum_list (map (\<lambda>kv. length (fst kv)) d) - counter)")
  show "wf (measure (\<lambda>(d :: disk, base :: string, ext :: string, counter :: nat).
              10 ^ sum_list (map (\<lambda>kv. length (fst kv)) d) - counter))"
    by simp
next
  fix d :: disk and base ext :: string and counter :: nat
  assume ex: "os_path_exists d (base @ ''_'' @ str_nat counter @ ext)"
  have bound: "n < 10 ^ length (str_nat n)" for n
  proof (induction n rule: str_nat.induct)
    case (1 n)
    show ?case
    proof (cases "n < 10")
      case True
      then show ?thesis by (subst str_nat.simps) simp
    next
      case False
      with 1 have ih: "n div 10 < 10 ^ length (str_nat (n div 10))" by simp
      have len: "length (str_nat n) = Suc (length (str_nat (n div 10)))"
        using False by (subst str_nat.simps) simp
      from ih have "n div 10 + 1 \<le> 10 ^ length (str_nat (n div 10))" by simp
      then have "10 * (n div 10 + 1) \<le> 10 * 10 ^ length (str_nat (n div 10))"
        by (rule mult_le_mono2)
      moreover have "n < 10 * (n div 10 + 1)" by presburger
      ultimately show ?thesis using len by simp
    qed
  qed
  let ?p = "base @ ''_'' @ str_nat counter @ ext"
  let ?L = "sum_list (map (\<lambda>kv. length (fst kv)) d)"
  from ex obtain v where "(?p, v) \<in> set d"
    by (auto simp: os_path_exists_def dest: map_of_SomeD)
  then have "length ?p \<in> set (map (\<lambda>kv. length (fst kv)) d)"
    by force
  then have "length ?p \<le> ?L"
    by (rule member_le_sum_list) simp
  then have "length (str_nat counter) \<le> ?L" by simp
  then have "(10 :: nat) ^ length (str_nat counter) \<le> 10 ^ ?L"
    by (intro power_increasing) simp_all
  with bound [of counter] have "counter < 10 ^ ?L" by (rule less_le_trans)
  then show "((d, base, ext, counter + 1), (d, base, ext, counter))
      \<in> measure (\<lambda>(d, base, ext, counter).
            10 ^ sum_list (map (\<lambda>kv. length (fst kv)) d) - counter)"
    by simp
qed

declare get_unique_loop.simps [simp del]

definition get_unique_path :: "disk \<Rightarrow> string \<Rightarrow> string" where
  "get_unique_path d preferred_path =
     (if \<not> os_path_exists d preferred_path then preferred_path
      else let (base, ext) = splitext preferred_path in get_unique_loop d base ext 1)"

text \<open>
  An uploaded file as the handler receives it: the client's file name and content type,
  either of them possibly absent, and the bytes, which \<open>file.read(1024 * 1024)\<close> hands
  out in pieces of one MiB.
\<close>

record upload =
  up_filename :: "string option"
  up_content_type :: "string option"
  up_data :: bytes

definition file_size_limit :: nat where
  "file_size_limit = 5 * 1024 * 1024 * 1024"

definition CHUNK :: nat where
  "CHUNK = 1024 * 1024"

text \<open>
  The loop that streams the upload to disk, from the bytes not yet read, the size counted
  and the bytes written so far; \<open>werr\<close> tells what \<open>buffer.write\<close> raises when the file
  would grow to a size. The loop ends where the source removes the file and raises the 413
  error, or where a write raises, or at the end of the upload with the size and the bytes
  written.
\<close>

datatype stream_result = TooLarge | WriteFailed pyexc bytes | Streamed nat bytes

function upload_loop :: "(nat \<Rightarrow> pyexc option) \<Rightarrow> bytes \<Rightarrow> nat \<Rightarrow> bytes \<Rightarrow> stream_result" where
  "upload_loop werr rest fsize written =
     (let chunk = take CHUNK rest
      in if chunk = [] then Streamed fsize written
         else if fsize + length chunk > file_size_limit then TooLarge
         else (case werr (fsize + length chunk) of
             Some x \<Rightarrow> WriteFailed x written
           | None \<Rightarrow>
               upload_loop werr (drop CHUNK rest) (fsize + length chunk) (written @ chunk)))"
  by pat_completeness auto
termination
  by (relation "measure (\<lambda>(werr, rest, fsize, written). length rest)") (auto simp: CHUNK_def)

declare upload_loop.simps [simp del]

definition upload_json :: "env \<Rightarrow> string \<Rightarrow> nat \<Rightarrow> string \<Rightarrow> string \<Rightarrow> instant option \<Rightarrow> json" where
  "upload_json e original_filename fsize content_type url_path expires =
     JObj [(''success'', JBool True),
           (''file_name'', JStr original_filename),
           (''file_size'', JInt (int fsize)),
           (''content_type'', JStr content_type),
           (''file_url'', JStr (env_base_url e @ ''/file/view/'' @ url_path)),
           (''download_url'', JStr (env_base_url e @ ''/file/download/'' @ url_path)),
           (''expires_at'', (case expires of None \<Rightarrow> JNull | Some t \<Rightarrow> JStr (isoformat CHR ''T'' t)))]"

definition str_int :: "int \<Rightarrow> string" where
  "str_int n = (if n < 0 then ''-'' @ str_nat (nat (- n)) else str_nat (nat n))"

text \<open>
  \<open>if expiry_days: expires_at = now + timedelta(days=expiry_days)\<close>, with the text of the
  OverflowError of each case: a number of days that is no C \<open>int\<close>, a \<open>timedelta\<close> of a
  thousand million days or more, a date outside the years 1 to 9999.
\<close>

definition expiry_of :: "instant \<Rightarrow> int option \<Rightarrow> pyexc \<times> string + instant option" where
  "expiry_of now expiry_days =
     (case expiry_days of
        None \<Rightarrow> Inr None
      | Some n \<Rightarrow>
          if n = 0 then Inr None
          else if n < - 2147483648 \<or> 2147483647 < n
          then Inl (OverflowError, ''Python int too large to convert to C int'')
          else if n < - 999999999 \<or> 999999999 < n
          then Inl (OverflowError, ''days='' @ str_int n @ ''; must have magnitude <= 999999999'')
          else (case add_days now n of
              Inl x \<Rightarrow> Inl (x, ''date value out of range'')
            | Inr t \<Rightarrow> Inr (Some t)))"

text \<open>
  The path the handler stores an upload under: the storage directory, a fresh UUID and the
  extension of the client's file name, made unique against the disk.
\<close>

definition upload_storage_path :: "env \<Rightarrow> server \<Rightarrow> upload \<Rightarrow> string" where
  "upload_storage_path e st file =
     get_unique_path (srv_disk st)
       (path_join STORAGE_DIR (get_safe_filename (env_uuid4 e (srv_draws st)) (up_filename file)))"

definition upload_error :: "string \<Rightarrow> failure" where
  "upload_error text = HTTPException 500 (''Error uploading file: '' @ text)"

text \<open>
  The handler of a single upload. Its \<open>except Exception\<close> turns every exception that is
  not an \<open>HTTPException\<close> into the 500 error, whose detail ends with \<open>str(e)\<close>: so for a
  storage file that the host does not open (the path is fresh, so only the host can refuse
  it) or does not write, which leaves the bytes written so far on disk, for the expiry and
  for the insert. The row's \<open>uploaded_at\<close> and \<open>expires_at\<close> are datetimes, which the
  database adapter stores as \<open>isoformat(" ")\<close>.
\<close>

definition upload_file :: "env \<Rightarrow> server \<Rightarrow> upload \<Rightarrow> int option \<Rightarrow> (failure + response) \<times> server" where
  "upload_file e st file expiry_days =
     (let uuid = env_uuid4 e (srv_draws st);
          st0 = st\<lparr>srv_draws := srv_draws st + 1\<rparr>;
          safe_filename = get_safe_filename uuid (up_filename file);
          original_filename =
            (case up_filename file of
               None \<Rightarrow> safe_filename
             | Some f \<Rightarrow> if f = [] then safe_filename else f);
          spath = upload_storage_path e st file
      in case env_open_error e spath of
           Some x \<Rightarrow> (Inl (upload_error (env_str e x spath)), st0)
         | None \<Rightarrow>
             let opened = AList.update spath (File []) (srv_disk st0)
             in (case upload_loop (env_write_error e spath) (up_data file) 0 [] of
                   TooLarge \<Rightarrow>
                     (case os_remove opened spath of
                        Inl x \<Rightarrow>
                          (Inl (upload_error (env_str e x spath)), st0\<lparr>srv_disk := opened\<rparr>)
                      | Inr d' \<Rightarrow>
                          (Inl (HTTPException 413 ''File too large, max size is 5120.0MB''),
                           st0\<lparr>srv_disk := d'\<rparr>))
                 | WriteFailed x written \<Rightarrow>
                     (Inl (upload_error (env_str e x spath)),
                      st0\<lparr>srv_disk := AList.update spath (File written) opened\<rparr>)
                 | Streamed fsize written \<Rightarrow>
                     let st1 = st0\<lparr>srv_disk := AList.update spath (File written) opened\<rparr>;
                         content_type =
                           resolve_content_type (env_guess_type e)
                             (case up_content_type file of None \<Rightarrow> [] | Some c \<Rightarrow> c)
                             original_filename
                     in (case expiry_of (env_now e) expiry_days of
                           Inl (x, text) \<Rightarrow> (Inl (upload_error text), st1)
                         | Inr expires \<Rightarrow>
                             (case files_db_add_new_file (srv_db st1) safe_filename spath
                                     original_filename content_type (int fsize)
                                     (isoformat CHR '' '' (env_import_time e))
                                     (map_option (isoformat CHR '' '') expires) of
                                Inl x \<Rightarrow>
                                  (Inl (upload_error ''UNIQUE constraint failed: files.file_path''),
                                   st1)
                              | Inr (file_data_id, db') \<Rightarrow>
                                  (Inr (JSONResponse 200
                                          (upload_json e original_filename fsize content_type
                                             safe_filename expires)),
                                   st1\<lparr>srv_db := db',
                                       srv_tasks := srv_tasks st1 @
                                         (if expires \<noteq> None
                                          then [AutoDeleteExpiredFile file_data_id]
                                          else [])\<rparr>)))))"

text \<open>
  \<open>upload_multiple_files\<close>. Each element of \<open>results\<close> is what \<open>upload_file\<close> returned, a
  \<open>JSONResponse\<close> object, or the dict made from an \<open>HTTPException\<close>. The membership test
  \<open>"error" in r\<close> holds for the dict, whose key it is, and raises TypeError for a response
  object, which is no container; \<open>json.dumps\<close> raises TypeError for it as well.
\<close>

datatype result_item = ResponseObject response | ErrorDict string "string option"

fun upload_each :: "env \<Rightarrow> server \<Rightarrow> upload list \<Rightarrow> int option \<Rightarrow> (pyexc + result_item list) \<times> server" where
  "upload_each e st [] expiry_days = (Inr [], st)"
| "upload_each e st (file # files) expiry_days =
     (case upload_file e st file expiry_days of
        (Inl (Unhandled x), st') \<Rightarrow> (Inl x, st')
      | (Inl (HTTPException code detail), st') \<Rightarrow>
          (case upload_each e st' files expiry_days of
             (Inl x, st'') \<Rightarrow> (Inl x, st'')
           | (Inr results, st'') \<Rightarrow> (Inr (ErrorDict detail (up_filename file) # results), st''))
      | (Inr file_result, st') \<Rightarrow>
          (case upload_each e st' files expiry_days of
             (Inl x, st'') \<Rightarrow> (Inl x, st'')
           | (Inr results, st'') \<Rightarrow> (Inr (ResponseObject file_result # results), st'')))"

fun contains_error :: "result_item \<Rightarrow> pyexc + bool" where
  "contains_error (ErrorDict detail fname) = Inr True"
| "contains_error (ResponseObject r) = Inl TypeError"

text \<open>\<open>len([r for r in results if ...])\<close>, the test on \<open>"error" in r\<close> being \<open>want\<close>.\<close>

fun count_results :: "bool \<Rightarrow> result_item list \<Rightarrow> pyexc + nat" where
  "count_results want [] = Inr 0"
| "count_results want (r # rs) =
     (case contains_error r of
        Inl x \<Rightarrow> Inl x
      | Inr b \<Rightarrow>
          (case count_results want rs of
             Inl x \<Rightarrow> Inl x
           | Inr n \<Rightarrow> Inr (if b = want then Suc n else n)))"

fun dumps_item :: "result_item \<Rightarrow> pyexc + json" where
  "dumps_item (ErrorDict detail fname) =
     Inr (JObj [(''error'', JStr detail),
                (''file_name'', (case fname of None \<Rightarrow> JNull | Some f \<Rightarrow> JStr f))])"
| "dumps_item (ResponseObject r) = Inl TypeError"

fun dumps_results :: "result_item list \<Rightarrow> pyexc + json list" where
  "dumps_results [] = Inr []"
| "dumps_results (r # rs) =
     (case dumps_item r of
        Inl x \<Rightarrow> Inl x
      | Inr j \<Rightarrow> (case dumps_results rs of Inl x \<Rightarrow> Inl x | Inr js \<Rightarrow> Inr (j # js)))"

definition upload_multiple_files ::
  "env \<Rightarrow> server \<Rightarrow> upload list \<Rightarrow> int option \<Rightarrow> (failure + response) \<times> server" where
  "upload_multiple_files e st files expiry_days =
     (if files = [] then (Inl (HTTPException 400 ''No files provided''), st)
      else case upload_each e st files expiry_days of
          (Inl x, st') \<Rightarrow> (Inl (Unhandled x), st')
        | (Inr results, st') \<Rightarrow>
            (case count_results False results of
               Inl x \<Rightarrow> (Inl (Unhandled x), st')
             | Inr uploaded_count \<Rightarrow>
                 (case count_results True results of
                    Inl x \<Rightarrow> (Inl (Unhandled x), st')
                  | Inr failed_count \<Rightarrow>
                      (case dumps_results results of
                         Inl x \<Rightarrow> (Inl (Unhandled x), st')
                       | Inr js \<Rightarrow>
                           (Inr (JSONResponse 200
                                   (JObj [(''success'', JBool True),
                                          (''uploaded_count'', JInt (int uploaded_count)),
                                          (''failed_count'', JInt (int failed_count)),
                                          (''files'', JArr js)])),
                            st')))))"

section \<open>The tasks that run after their handler\<close>

text \<open>
  \<open>auto_delete_expired_file_task(data_id=...)\<close>, from its start to its end: it fetches the
  row, sleeps until the expiry and removes the stored bytes; a failing removal is logged.
  An exception of \<open>fetch_date\<close> ends the task.
\<close>

definition auto_delete_expired_file_task :: "env \<Rightarrow> server \<Rightarrow> int \<Rightarrow> server" where
  "auto_delete_expired_file_task e st data_id =
     (if data_id = 0 then st
      else case files_db_get_file_by_id (srv_db st) data_id of
          None \<Rightarrow> st
        | Some file_data \<Rightarrow>
            (case expires_at file_data of
               None \<Rightarrow> st
             | Some s \<Rightarrow>
                 if s = [] then st
                 else (case fetch_date (env_tz e) s of
                     Inr (Some t) \<Rightarrow>
                       (case os_remove (srv_disk st) (storage_path file_data) of
                          Inl x \<Rightarrow> st
                        | Inr d' \<Rightarrow> st\<lparr>srv_disk := d'\<rparr>)
                   | _ \<Rightarrow> st)))"

fun run_task :: "env \<Rightarrow> task \<Rightarrow> server \<Rightarrow> server" where
  "run_task e (UpdateFileAccess fp) st =
     st\<lparr>srv_db := files_db_update_file_access (env_db_now e) (srv_db st) fp\<rparr>"
| "run_task e (AutoDeleteExpiredFile data_id) st = auto_delete_expired_file_task e st data_id"

text \<open>The event loop runs every task that is waiting, in the order of their creation.\<close>

definition run_pending :: "env \<Rightarrow> server \<Rightarrow> server" where
  "run_pending e st = fold (run_task e) (srv_tasks st) (st\<lparr>srv_tasks := []\<rparr>)"

section \<open>A small server for the examples\<close>

text \<open>
  A host on UTC at noon of 2025-05-11, and a table of three rows: \<open>a.txt\<close> with its bytes
  on disk, \<open>old.txt\<close> whose expiry is the start of 2020, and \<open>lost.txt\<close> whose bytes are
  missing. The host's file system refuses a path with a NUL character (ValueError,
  raised by Python itself) and a file name of more than 255 bytes (OSError with errno 36),
  and does not run full.
\<close>

definition demo_open_error :: "string \<Rightarrow> pyexc option" where
  "demo_open_error p =
     (if CHR 0x00 \<in> set p then Some ValueError
      else if 255 < length (drop (nat (rfind CHR ''/'' p + 1)) p) then Some OSError
      else None)"

definition demo_str :: "pyexc \<Rightarrow> string \<Rightarrow> string" where
  "demo_str x p =
     (if x = ValueError then ''embedded null byte''
      else ''[Errno 36] File name too long: '' @ [CHR 0x27] @ p @ [CHR 0x27])"

definition demo_env :: env where
  "demo_env =
     \<lparr>env_tz = (\<lambda>w. 0),
      env_now = utc_instant 2025 5 11 12 0 0 0,
      env_db_now = utc_instant 2025 5 11 12 0 0 0,
      env_import_time = utc_instant 2025 5 1 0 0 0 0,
      env_uuid4 = (\<lambda>n. ''upload-'' @ str_nat n),
      env_guess_type = (\<lambda>f. None),
      env_base_url = ''http://localhost:8000'',
      env_compress = (\<lambda>b quality max_width to_webp lossless. Some (take 1 b)),
      env_open_error = demo_open_error,
      env_write_error = (\<lambda>p n. None),
      env_str = demo_str\<rparr>"

definition demo_row :: "int \<Rightarrow> string \<Rightarrow> string option \<Rightarrow> file_row" where
  "demo_row n name expires =
     \<lparr>row_id = n, file_path = name, storage_path = ''storage/'' @ name, file_name = name,
      file_type = ''text/plain'', file_size = 2, access_count = 0, last_accessed = None,
      expires_at = expires, uploaded_at = ''2025-05-01 00:00:00+00:00''\<rparr>"

definition demo_server :: server where
  "demo_server =
     \<lparr>srv_db = \<lparr>tbl_rows = [demo_row 1 ''a.txt'' None,
                             demo_row 2 ''old.txt'' (Some ''2020-01-01 00:00:00+00:00''),
                             demo_row 3 ''lost.txt'' None],
                 tbl_seq = 3\<rparr>,
      srv_disk = [(''storage/a.txt'', File [104, 105]), (''storage/old.txt'', File [111])],
      srv_tasks = [],
      srv_draws = 0\<rparr>"

text \<open>
  The same host five seconds later; an upload of two bytes named \<open>b.txt\<close>; an upload
  one byte longer than the limit; and an upload of that size whose file name has an
  extension of 300 characters.
\<close>

definition demo_later :: env where
  "demo_later = demo_env\<lparr>env_now := utc_instant 2025 5 11 12 0 5 0,
                          env_db_now := utc_instant 2025 5 11 12 0 5 0\<rparr>"

definition demo_upload :: upload where
  "demo_upload = \<lparr>up_filename = Some ''b.txt'', up_content_type = Some ''text/plain'',
                  up_data = [104, 105]\<rparr>"

definition demo_big_upload :: upload where
  "demo_big_upload = \<lparr>up_filename = Some ''big.bin'', up_content_type = None,
                      up_data = replicate (Suc file_size_limit) 0\<rparr>"

definition demo_long_name :: string where
  "demo_long_name = ''a.'' @ replicate 300 CHR ''x''"

definition demo_long_upload :: upload where
  "demo_long_upload = \<lparr>up_filename = Some demo_long_name, up_content_type = None,
                       up_data = replicate (Suc file_size_limit) 0\<rparr>"

section \<open>Lemmas on the table and the examples\<close>

lemma find_map_path:
  assumes "\<And>r. file_path (f r) = file_path r"
  shows "find (\<lambda>r. file_path r = q) (map f rs) = map_option f (find (\<lambda>r. file_path r = q) rs)"
  using assms by (induction rs) simp_all

lemma select_after_update:
  "select_by_path (files_db_update_file_access n t p) q =
     map_option (\<lambda>r. if file_path r = p
                      then r\<lparr>access_count := access_count r + 1,
                             last_accessed := Some (CURRENT_TIMESTAMP n)\<rparr>
                      else r) (select_by_path t q)"
  unfolding select_by_path_def files_db_update_file_access_def
  by (simp add: find_map_path)

lemma select_Some_path: "select_by_path t p = Some r \<Longrightarrow> file_path r = p"
  unfolding select_by_path_def by (auto simp: find_Some_iff)

lemma select_after_delete: "select_by_path (snd (files_db_delete_file t p)) p = None"
  unfolding select_by_path_def files_db_delete_file_def by (simp add: find_None_iff)

lemma get_file_absent:
  "select_by_path t p = None \<Longrightarrow> files_db_get_file n t p = (None, t)"
  by (simp add: files_db_get_file_def)

lemma get_file_present:
  "select_by_path t p = Some r \<Longrightarrow>
   files_db_get_file n t p = (Some r, files_db_update_file_access n t p)"
  by (simp add: files_db_get_file_def)

lemma expired_check_parsed:
  "expires_at r = Some s \<Longrightarrow> s \<noteq> [] \<Longrightarrow> fetch_date tz s = Inr (Some t) \<Longrightarrow>
   expired_check tz now r = Inr (t < now)"
  by (simp add: expired_check_def)

lemma fetch_date_2020:
  "fetch_date tz ''2020-01-01 00:00:00+00:00'' = Inr (Some (utc_instant 2020 1 1 0 0 0 0))"
  by code_simp

lemma demo_select:
  "select_by_path (srv_db demo_server) ''a.txt'' = Some (demo_row 1 ''a.txt'' None)"
  "select_by_path (srv_db demo_server) ''old.txt''
     = Some (demo_row 2 ''old.txt'' (Some ''2020-01-01 00:00:00+00:00''))"
  "select_by_path (srv_db demo_server) ''lost.txt'' = Some (demo_row 3 ''lost.txt'' None)"
  "select_by_path (srv_db demo_server) ''nope'' = None"
  by (simp_all add: select_by_path_def demo_server_def demo_row_def)

lemma utc_2020_before_demo_now: "utc_instant 2020 1 1 0 0 0 0 < env_now demo_env"
  by (simp add: demo_env_def utc_instant_def ymd2ord_def days_before_year_def
      days_before_month_def DAYS_IN_MONTH_def is_leap_def US_PER_DAY_def)

lemma demo_old_expired:
  "expired_check (env_tz demo_env) (env_now demo_env)
     (demo_row 2 ''old.txt'' (Some ''2020-01-01 00:00:00+00:00'')) = Inr True"
  using utc_2020_before_demo_now
  by (simp add: expired_check_def fetch_date_2020 demo_row_def)

lemma demo_lost_missing:
  "\<not> os_path_exists (srv_disk demo_server) (storage_path (demo_row 3 ''lost.txt'' None))"
  by (simp add: os_path_exists_def demo_server_def demo_row_def)

section \<open>The date utility\<close>

text \<open>
  Claim C8, as amended. \<open>fetch_date\<close> maps the string with the offset \<open>+00:00\<close> to the
  UTC instant 2025-05-11 12:56:56.785356. The string without an offset is read as the local
  time of the host: with the host's UTC offset at that wall-clock reading being \<open>tz\<close> seconds
  (less than a day either way), the result is the UTC instant 2025-05-11 12:56:56 minus
  \<open>tz\<close> seconds, without a fraction; it is 12:56:56 UTC exactly on a host whose offset is 0.
\<close>

theorem fetch_date_examples:
  "fetch_date tz ''2025-05-11 12:56:56.785356+00:00''
     = Inr (Some (utc_instant 2025 5 11 12 56 56 785356))
   \<and> (\<bar>tz (utc_instant 2025 5 11 12 56 56 0)\<bar> < 86400 \<longrightarrow>
        fetch_date tz ''2025-05-11 12:56:56''
          = Inr (Some (utc_instant 2025 5 11 12 56 56 0
                       - tz (utc_instant 2025 5 11 12 56 56 0) * 1000000)))
   \<and> (tz (utc_instant 2025 5 11 12 56 56 0) = 0 \<longrightarrow>
        fetch_date tz ''2025-05-11 12:56:56'' = Inr (Some (utc_instant 2025 5 11 12 56 56 0)))"
proof -
  have first: "fetch_date tz ''2025-05-11 12:56:56.785356+00:00''
     = Inr (Some (utc_instant 2025 5 11 12 56 56 785356))"
    by code_simp
  have parse: "fromisoformat ''2025-05-11 12:56:56''
      = Inr \<lparr>dt_year = 2025, dt_month = 5, dt_day = 11, dt_hour = 12, dt_minute = 56,
             dt_second = 56, dt_microsecond = 0, dt_tzinfo = None\<rparr>"
    by code_simp
  have wall: "wall_micros \<lparr>dt_year = 2025, dt_month = 5, dt_day = 11, dt_hour = 12,
      dt_minute = 56, dt_second = 56, dt_microsecond = 0, dt_tzinfo = None\<rparr>
      = utc_instant 2025 5 11 12 56 56 0"
    by (simp add: wall_micros_def utc_instant_def)
  have val: "utc_instant 2025 5 11 12 56 56 0 = 63882565016000000"
    by code_simp
  have second: "fetch_date tz ''2025-05-11 12:56:56''
          = Inr (Some (utc_instant 2025 5 11 12 56 56 0
                       - tz (utc_instant 2025 5 11 12 56 56 0) * 1000000))"
    if "\<bar>tz (utc_instant 2025 5 11 12 56 56 0)\<bar> < 86400"
  proof -
    let ?u = "utc_instant 2025 5 11 12 56 56 0 - tz (utc_instant 2025 5 11 12 56 56 0) * 1000000"
    let ?v = "utc_instant 2025 5 11 12 56 56 0 + tz (utc_instant 2025 5 11 12 56 56 0) * 1000000"
    from that have "0 \<le> ?u \<and> ?u < MAXORDINAL * US_PER_DAY"
      unfolding val MAXORDINAL_def US_PER_DAY_def by linarith
    moreover from that have "\<not> ?v < 0 \<and> \<not> MAXORDINAL * US_PER_DAY \<le> ?v"
      unfolding val MAXORDINAL_def US_PER_DAY_def by linarith
    moreover have "\<not> utc_instant 2025 5 11 12 56 56 0 < US_PER_DAY"
      unfolding val US_PER_DAY_def by simp
    ultimately show ?thesis
      by (simp add: fetch_date_def parse astimezone_utc_def wall Let_def)
  qed
  from first second show ?thesis by simp
qed

text \<open>
  On a host six hours ahead of UTC the string without an offset gives 06:56:56 UTC, not
  12:56:56 UTC.
\<close>

theorem fetch_date_local_time:
  "fetch_date (\<lambda>w. 21600) ''2025-05-11 12:56:56'' = Inr (Some (utc_instant 2025 5 11 6 56 56 0))
   \<and> utc_instant 2025 5 11 6 56 56 0 \<noteq> utc_instant 2025 5 11 12 56 56 0"
  by code_simp

theorem fetch_date_examples_witness:
  "fetch_date (\<lambda>w. 0) ''2025-05-11 12:56:56'' = Inr (Some (utc_instant 2025 5 11 12 56 56 0))
   \<and> fetch_date (\<lambda>w. 3600) ''2025-05-11 12:56:56'' = Inr (Some (utc_instant 2025 5 11 11 56 56 0))"
proof -
  have a: "fetch_date (\<lambda>w. 0) ''2025-05-11 12:56:56'' = Inr (Some (utc_instant 2025 5 11 12 56 56 0))"
    using fetch_date_examples [of "\<lambda>w. 0"] by simp
  have v: "utc_instant 2025 5 11 12 56 56 0 - 3600 * 1000000 = utc_instant 2025 5 11 11 56 56 0"
    by code_simp
  have b: "fetch_date (\<lambda>w. 3600) ''2025-05-11 12:56:56'' = Inr (Some (utc_instant 2025 5 11 11 56 56 0))"
    using fetch_date_examples [of "\<lambda>w. 3600"] v by simp
  from a b show ?thesis by simp
qed

section \<open>The authorization guard\<close>

lemma split_on_nonempty: "split_on sep s \<noteq> []"
  by (induction s) (simp_all add: Let_def)

lemma split_on_hd: "hd (split_on sep s) = takeWhile (\<lambda>c. c \<noteq> sep) s"
  by (induction s) (simp_all add: Let_def)

lemma split_on_tl:
  "tl (split_on sep s)
     = (if sep \<in> set s then split_on sep (tl (dropWhile (\<lambda>c. c \<noteq> sep) s)) else [])"
  by (induction s) (auto simp: Let_def)

lemma split_on_second:
  assumes "sep \<in> set s"
  shows "1 < length (split_on sep s)"
    and "split_on sep s ! 1 = takeWhile (\<lambda>c. c \<noteq> sep) (tl (dropWhile (\<lambda>c. c \<noteq> sep) s))"
proof -
  let ?rest = "tl (dropWhile (\<lambda>c. c \<noteq> sep) s)"
  have tl: "tl (split_on sep s) = split_on sep ?rest"
    using assms by (simp add: split_on_tl)
  obtain x xs where xs: "split_on sep s = x # xs"
    using split_on_nonempty [of sep s] by (cases "split_on sep s") auto
  with tl have xs': "xs = split_on sep ?rest" by simp
  then have "xs \<noteq> []" by (simp add: split_on_nonempty)
  with xs show "1 < length (split_on sep s)" by (cases xs) auto
  from xs xs' have "split_on sep s ! 1 = hd (split_on sep ?rest)"
    using split_on_nonempty [of sep ?rest] by (simp add: hd_conv_nth)
  then show "split_on sep s ! 1 = takeWhile (\<lambda>c. c \<noteq> sep) ?rest"
    by (simp add: split_on_hd)
qed

lemma bearer_prefix: "is_substring ''Bearer'' (''Bearer '' @ tok)"
  by simp

text \<open>
  Claim C7, as amended. The guard raises the 401 error when the Authorization header is
  absent or empty. For a value that does not contain \<open>Bearer\<close> the token is the value itself.
  For a value that contains \<open>Bearer\<close> and a space, the token is the text between the first and
  the second space (to the end without a second space), so for \<open>Bearer\<close>, one space and a
  token without spaces it is that token. The guard raises the 403 error when the token
  differs from the master key and returns \<open>True\<close> when it equals it. (A value that contains
  \<open>Bearer\<close> and no space is not covered.)
\<close>

theorem authorize_admin_cases:
  "authorize_admin key None = Inl (HTTPException 401 ''Unauthorized'')
   \<and> authorize_admin key (Some []) = Inl (HTTPException 401 ''Unauthorized'')
   \<and> (a \<noteq> [] \<and> \<not> is_substring ''Bearer'' a \<longrightarrow>
        authorize_admin key (Some a)
          = (if a = key then Inr True else Inl (HTTPException 403 ''Forbidden'')))
   \<and> (is_substring ''Bearer'' a \<and> CHR '' '' \<in> set a \<longrightarrow>
        authorize_admin key (Some a)
          = (if takeWhile (\<lambda>c. c \<noteq> CHR '' '') (tl (dropWhile (\<lambda>c. c \<noteq> CHR '' '') a)) = key
             then Inr True else Inl (HTTPException 403 ''Forbidden'')))
   \<and> (CHR '' '' \<notin> set tok \<longrightarrow>
        authorize_admin key (Some (''Bearer '' @ tok))
          = (if tok = key then Inr True else Inl (HTTPException 403 ''Forbidden'')))"
proof (intro conjI impI)
  show "authorize_admin key None = Inl (HTTPException 401 ''Unauthorized'')"
    by (simp add: authorize_admin_def)
  show "authorize_admin key (Some []) = Inl (HTTPException 401 ''Unauthorized'')"
    by (simp add: authorize_admin_def)
next
  assume "a \<noteq> [] \<and> \<not> is_substring ''Bearer'' a"
  then show "authorize_admin key (Some a)
          = (if a = key then Inr True else Inl (HTTPException 403 ''Forbidden''))"
    by (simp add: authorize_admin_def extract_token_def)
next
  assume h: "is_substring ''Bearer'' a \<and> CHR '' '' \<in> set a"
  then have ne: "a \<noteq> []" by auto
  from h have sp: "CHR '' '' \<in> set a" by simp
  have s1: "1 < length (split_on CHR '' '' a)"
    using sp by (rule split_on_second(1))
  have s2: "split_on CHR '' '' a ! 1
             = takeWhile (\<lambda>c. c \<noteq> CHR '' '') (tl (dropWhile (\<lambda>c. c \<noteq> CHR '' '') a))"
    using sp by (rule split_on_second(2))
  from h ne s1 s2 show "authorize_admin key (Some a)
          = (if takeWhile (\<lambda>c. c \<noteq> CHR '' '') (tl (dropWhile (\<lambda>c. c \<noteq> CHR '' '') a)) = key
             then Inr True else Inl (HTTPException 403 ''Forbidden''))"
    by (simp add: authorize_admin_def extract_token_def Let_def)
next
  assume h: "CHR '' '' \<notin> set tok"
  have sp: "CHR '' '' \<in> set (''Bearer '' @ tok)" by simp
  from h have tw: "takeWhile (\<lambda>c. c \<noteq> CHR '' '') tok = tok" by (auto simp: takeWhile_eq_all_conv)
  have "split_on CHR '' '' (''Bearer '' @ tok) ! 1
      = takeWhile (\<lambda>c. c \<noteq> CHR '' '')
          (tl (dropWhile (\<lambda>c. c \<noteq> CHR '' '') (''Bearer '' @ tok)))"
    using sp by (rule split_on_second(2))
  also have "tl (dropWhile (\<lambda>c. c \<noteq> CHR '' '') (''Bearer '' @ tok)) = tok"
    by simp
  finally have "split_on CHR '' '' (''Bearer '' @ tok) ! 1 = tok"
    by (simp only: tw)
  with split_on_second(1) [OF sp] bearer_prefix [of tok]
  show "authorize_admin key (Some (''Bearer '' @ tok))
          = (if tok = key then Inr True else Inl (HTTPException 403 ''Forbidden''))"
    by (simp add: authorize_admin_def extract_token_def Let_def del: is_substring.simps split_on.simps)
qed

theorem authorize_admin_cases_witness:
  "authorize_admin ''master_key'' (Some ''master_key'') = Inr True
   \<and> authorize_admin ''master_key'' (Some ''guess'') = Inl (HTTPException 403 ''Forbidden'')
   \<and> authorize_admin ''master_key'' (Some ''Bearer master_key'') = Inr True
   \<and> authorize_admin ''master_key'' (Some ''Bearer guess'') = Inl (HTTPException 403 ''Forbidden'')
   \<and> authorize_admin ''master_key'' (Some ''Token Bearer master_key'') = Inl (HTTPException 403 ''Forbidden'')"
proof -
  have a: "authorize_admin ''master_key'' (Some ''master_key'') = Inr True"
    using authorize_admin_cases [of "''master_key''" "''master_key''"] by simp
  have b: "authorize_admin ''master_key'' (Some ''guess'') = Inl (HTTPException 403 ''Forbidden'')"
    using authorize_admin_cases [of "''master_key''" "''guess''"] by simp
  have c: "authorize_admin ''master_key'' (Some (''Bearer '' @ ''master_key'')) = Inr True"
    using authorize_admin_cases [of "''master_key''" _ "''master_key''"] by simp
  have d: "authorize_admin ''master_key'' (Some (''Bearer '' @ ''guess'')) = Inl (HTTPException 403 ''Forbidden'')"
    using authorize_admin_cases [of "''master_key''" _ "''guess''"] by simp
  have e: "authorize_admin ''master_key'' (Some ''Token Bearer master_key'') = Inl (HTTPException 403 ''Forbidden'')"
    using authorize_admin_cases [of "''master_key''" "''Token Bearer master_key''"] by simp
  from a b c d e show ?thesis by simp
qed

text \<open>
  Where the guard departs from the claim as it was stated: a header that is present with
  an empty value gets the 401 error, not 403; a value that only contains \<open>Bearer\<close> somewhere
  is split as well; and of a key with a space only the first word is compared.
\<close>

theorem authorize_admin_counterexample:
  "authorize_admin ''master_key'' (Some []) = Inl (HTTPException 401 ''Unauthorized'')
   \<and> authorize_admin ''master_key'' (Some ''xBearer master_key'') = Inr True
   \<and> authorize_admin ''master key'' (Some ''Bearer master key'') = Inl (HTTPException 403 ''Forbidden'')"
  by (simp add: authorize_admin_def extract_token_def Let_def)

text \<open>
  The value \<open>Bearer\<close> alone has no second part: the guard ends in an IndexError that
  nothing handles.
\<close>

lemma authorize_admin_bearer_alone:
  "authorize_admin key (Some ''Bearer'') = Inl (Unhandled IndexError)"
  by (simp add: authorize_admin_def extract_token_def Let_def)

section \<open>The rate limiter\<close>

lemma limiter_call_fields:
  "rl_times (snd (limiter_call rl c now)) = rl_times rl"
  "rl_seconds (snd (limiter_call rl c now)) = rl_seconds rl"
  by (simp_all add: limiter_call_def Let_def)

lemma limiter_after_fields:
  "rl_times (limiter_after rl calls) = rl_times rl \<and> rl_seconds (limiter_after rl calls) = rl_seconds rl"
  by (induction rl calls rule: limiter_after.induct) (simp_all add: limiter_call_fields)

lemma limiter_call_other:
  "c' \<noteq> c \<Longrightarrow> rl_requests (snd (limiter_call rl c now)) c' = rl_requests rl c'"
  by (simp add: limiter_call_def Let_def)

lemma limiter_inv_step:
  assumes inv: "limiter_inv rl T" and le: "T \<le> now"
  shows "limiter_inv (snd (limiter_call rl c now)) now"
proof -
  have n: "0 \<le> rl_times rl" using inv by (simp add: limiter_inv_def)
  have q: "sorted (rl_requests rl c')" "int (length (rl_requests rl c')) \<le> rl_times rl"
    "\<forall>t\<in>set (rl_requests rl c'). t \<le> T" for c'
    using inv by (simp_all add: limiter_inv_def)
  let ?kept = "dropWhile (\<lambda>t. t \<le> now - real_of_int (rl_seconds rl)) (rl_requests rl c)"
  have k1: "sorted ?kept" using q(1) by (rule sorted_dropWhile)
  have "length ?kept \<le> length (rl_requests rl c)" by (rule length_dropWhile_le)
  with q(2) [of c] have k2: "int (length ?kept) \<le> rl_times rl" by linarith
  have k3: "\<forall>t\<in>set ?kept. t \<le> now"
  proof
    fix t
    assume "t \<in> set ?kept"
    then have "t \<in> set (rl_requests rl c)" by (rule set_dropWhileD)
    with q(3) [of c] have "t \<le> T" by blast
    with le show "t \<le> now" by simp
  qed
  from k1 k3 have k4: "sorted (?kept @ [now])" by (simp add: sorted_append)
  have same: "\<forall>t\<in>set (rl_requests rl c'). t \<le> now" for c'
    using q(3) [of c'] le by auto
  show ?thesis
    unfolding limiter_inv_def
    using n k1 k2 k3 k4 q same
    by (auto simp: limiter_call_def Let_def deque_append_def)
qed

lemma limiter_inv_after:
  "limiter_inv rl T \<Longrightarrow> sorted (T # map snd calls) \<Longrightarrow>
   limiter_inv (limiter_after rl calls) (last (T # map snd calls))"
proof (induction rl calls arbitrary: T rule: limiter_after.induct)
  case (1 rl)
  then show ?case by simp
next
  case (2 rl client_ip t calls)
  from "2.prems" have "T \<le> t" by simp
  with "2.prems"(1) have "limiter_inv (snd (limiter_call rl client_ip t)) t"
    by (rule limiter_inv_step)
  moreover from "2.prems"(2) have "sorted (t # map snd calls)" by simp
  ultimately have "limiter_inv (limiter_after (snd (limiter_call rl client_ip t)) calls)
      (last (t # map snd calls))"
    by (rule "2.IH")
  then show ?case by simp
qed

lemma limiter_inv_fresh: "0 \<le> n \<Longrightarrow> limiter_inv (RateLimiter n w) T"
  by (simp add: limiter_inv_def RateLimiter_def)

lemma dropWhile_sorted_filter:
  fixes b :: real
  shows "sorted xs \<Longrightarrow> dropWhile (\<lambda>t. t \<le> b) xs = filter (\<lambda>t. b < t) xs"
proof (induction xs)
  case Nil
  then show ?case by simp
next
  case (Cons x xs)
  show ?case
  proof (cases "x \<le> b")
    case True
    with Cons show ?thesis by simp
  next
    case False
    with Cons.prems have "\<forall>y\<in>set xs. b < y" by auto
    then have "filter (\<lambda>t. b < t) xs = xs" by (simp add: filter_id_conv)
    with False show ?thesis by simp
  qed
qed

lemma limiter_call_step:
  assumes "limiter_inv rl T"
  shows "limiter_call rl c now =
     (let kept = filter (\<lambda>t. now - real_of_int (rl_seconds rl) < t) (rl_requests rl c)
      in if int (length kept) = rl_times rl
         then (Inl (HTTPException 429 ''Too many requests''),
               rl\<lparr>rl_requests := (rl_requests rl)(c := kept)\<rparr>)
         else (Inr (), rl\<lparr>rl_requests := (rl_requests rl)(c := kept @ [now])\<rparr>))"
proof -
  from assms have inv: "0 \<le> rl_times rl" "sorted (rl_requests rl c)"
    "int (length (rl_requests rl c)) \<le> rl_times rl"
    by (simp_all add: limiter_inv_def)
  let ?kept = "filter (\<lambda>t. now - real_of_int (rl_seconds rl) < t) (rl_requests rl c)"
  have dw: "dropWhile (\<lambda>t. t \<le> now - real_of_int (rl_seconds rl)) (rl_requests rl c) = ?kept"
    using inv(2) by (rule dropWhile_sorted_filter)
  have "length ?kept \<le> length (rl_requests rl c)" by simp
  with inv(3) have le: "int (length ?kept) \<le> rl_times rl" by linarith
  from inv(1) le show ?thesis
    by (auto simp: limiter_call_def dw deque_append_def Let_def)
qed

text \<open>
  Claim C6. Take a limiter with count \<open>N\<close> and window \<open>W\<close> seconds that started empty and
  has served any list of calls, of any clients, under a clock that did not go back. A call
  of a client at time \<open>now\<close> keeps exactly the client's queued times after \<open>now - W\<close>; if
  \<open>N\<close> of them remain it raises the 429 error and stores the kept times, otherwise it
  stores the kept times with \<open>now\<close> appended and allows the request; the deques of other
  clients stay as they are. For \<open>N = 3\<close> and \<open>W = 5\<close>, starting empty: three requests are
  allowed, a fourth within five seconds of the first is refused, and a later request at
  least five seconds after the first is allowed.
\<close>

theorem limiter_call_sliding_window:
  "(0 \<le> n \<and> sorted (map snd calls) \<and> (\<forall>t\<in>set (map snd calls). t \<le> now) \<longrightarrow>
      (let rl = limiter_after (RateLimiter n w) calls;
           kept = filter (\<lambda>t. now - real_of_int w < t) (rl_requests rl c)
       in limiter_call rl c now =
            (if int (length kept) = n
             then (Inl (HTTPException 429 ''Too many requests''),
                   rl\<lparr>rl_requests := (rl_requests rl)(c := kept)\<rparr>)
             else (Inr (), rl\<lparr>rl_requests := (rl_requests rl)(c := kept @ [now])\<rparr>))))
   \<and> (t1 \<le> t2 \<and> t2 \<le> t3 \<and> t3 \<le> t4 \<and> t4 < t1 + 5 \<and> t4 \<le> t5 \<and> t1 + 5 \<le> t5 \<longrightarrow>
        (let (r1, l1) = limiter_call (RateLimiter 3 5) c t1;
             (r2, l2) = limiter_call l1 c t2;
             (r3, l3) = limiter_call l2 c t3;
             (r4, l4) = limiter_call l3 c t4;
             (r5, l5) = limiter_call l4 c t5
         in r1 = Inr () \<and> r2 = Inr () \<and> r3 = Inr ()
            \<and> r4 = Inl (HTTPException 429 ''Too many requests'') \<and> r5 = Inr ()))"
proof (intro conjI impI)
  assume h: "0 \<le> n \<and> sorted (map snd calls) \<and> (\<forall>t\<in>set (map snd calls). t \<le> now)"
  let ?rl = "limiter_after (RateLimiter n w) calls"
  define T where "T = (if calls = [] then now else hd (map snd calls))"
  have "sorted (T # map snd calls)"
    using h by (cases calls) (auto simp: T_def)
  moreover have "limiter_inv (RateLimiter n w) T"
    using h by (simp add: limiter_inv_fresh)
  ultimately have "limiter_inv ?rl (last (T # map snd calls))"
    by (rule limiter_inv_after [rotated])
  then have step: "limiter_call ?rl c now =
     (let kept = filter (\<lambda>t. now - real_of_int (rl_seconds ?rl) < t) (rl_requests ?rl c)
      in if int (length kept) = rl_times ?rl
         then (Inl (HTTPException 429 ''Too many requests''),
               ?rl\<lparr>rl_requests := (rl_requests ?rl)(c := kept)\<rparr>)
         else (Inr (), ?rl\<lparr>rl_requests := (rl_requests ?rl)(c := kept @ [now])\<rparr>))"
    by (rule limiter_call_step)
  have f: "rl_times ?rl = n" "rl_seconds ?rl = w"
    using limiter_after_fields [of "RateLimiter n w" calls] by (simp_all add: RateLimiter_def)
  from step show "let rl = limiter_after (RateLimiter n w) calls;
           kept = filter (\<lambda>t. now - real_of_int w < t) (rl_requests rl c)
       in limiter_call rl c now =
            (if int (length kept) = n
             then (Inl (HTTPException 429 ''Too many requests''),
                   rl\<lparr>rl_requests := (rl_requests rl)(c := kept)\<rparr>)
             else (Inr (), rl\<lparr>rl_requests := (rl_requests rl)(c := kept @ [now])\<rparr>))"
    by (simp add: f Let_def)
next
  assume "t1 \<le> t2 \<and> t2 \<le> t3 \<and> t3 \<le> t4 \<and> t4 < t1 + 5 \<and> t4 \<le> t5 \<and> t1 + 5 \<le> t5"
  then show "let (r1, l1) = limiter_call (RateLimiter 3 5) c t1;
             (r2, l2) = limiter_call l1 c t2;
             (r3, l3) = limiter_call l2 c t3;
             (r4, l4) = limiter_call l3 c t4;
             (r5, l5) = limiter_call l4 c t5
         in r1 = Inr () \<and> r2 = Inr () \<and> r3 = Inr ()
            \<and> r4 = Inl (HTTPException 429 ''Too many requests'') \<and> r5 = Inr ()"
    by (auto simp: limiter_call_def RateLimiter_def deque_append_def Let_def)
qed

theorem limiter_call_sliding_window_witness:
  "fst (limiter_call
          (limiter_after (RateLimiter 3 5)
             [(''10.0.0.1'', 0), (''10.0.0.2'', 0.5), (''10.0.0.1'', 1), (''10.0.0.1'', 2)])
          ''10.0.0.1'' 3) = Inl (HTTPException 429 ''Too many requests'')
   \<and> fst (limiter_call
          (limiter_after (RateLimiter 3 5)
             [(''10.0.0.1'', 0), (''10.0.0.2'', 0.5), (''10.0.0.1'', 1), (''10.0.0.1'', 2)])
          ''10.0.0.1'' 5) = Inr ()
   \<and> (let (r1, l1) = limiter_call (RateLimiter 3 5) ''10.0.0.1'' 0;
           (r2, l2) = limiter_call l1 ''10.0.0.1'' 1;
           (r3, l3) = limiter_call l2 ''10.0.0.1'' 2;
           (r4, l4) = limiter_call l3 ''10.0.0.1'' 3;
           (r5, l5) = limiter_call l4 ''10.0.0.1'' 5
       in r1 = Inr () \<and> r2 = Inr () \<and> r3 = Inr ()
          \<and> r4 = Inl (HTTPException 429 ''Too many requests'') \<and> r5 = Inr ())"
proof -
  let ?calls = "[(''10.0.0.1'', 0), (''10.0.0.2'', 0.5), (''10.0.0.1'', 1), (''10.0.0.1'', 2 :: real)]"
  have q: "rl_requests (limiter_after (RateLimiter 3 5) ?calls) ''10.0.0.1'' = [0, 1, 2]"
    by (simp add: limiter_call_def RateLimiter_def deque_append_def Let_def)
  have a: "fst (limiter_call (limiter_after (RateLimiter 3 5) ?calls) ''10.0.0.1'' 3)
      = Inl (HTTPException 429 ''Too many requests'')"
    using limiter_call_sliding_window [of 3 ?calls 3 5 "''10.0.0.1''"] q
    by (simp add: Let_def)
  have b: "fst (limiter_call (limiter_after (RateLimiter 3 5) ?calls) ''10.0.0.1'' 5) = Inr ()"
    using limiter_call_sliding_window [of 3 ?calls 5 5 "''10.0.0.1''"] q
    by (simp add: Let_def)
  have c: "let (r1, l1) = limiter_call (RateLimiter 3 5) ''10.0.0.1'' 0;
           (r2, l2) = limiter_call l1 ''10.0.0.1'' 1;
           (r3, l3) = limiter_call l2 ''10.0.0.1'' 2;
           (r4, l4) = limiter_call l3 ''10.0.0.1'' 3;
           (r5, l5) = limiter_call l4 ''10.0.0.1'' 5
       in r1 = Inr () \<and> r2 = Inr () \<and> r3 = Inr ()
          \<and> r4 = Inl (HTTPException 429 ''Too many requests'') \<and> r5 = Inr ()"
    using limiter_call_sliding_window [of _ _ _ _ "''10.0.0.1''" 0 1 2 3 5] by simp
  from a b c show ?thesis by blast
qed

section \<open>The file-serving routes\<close>

text \<open>
  Claim C1. For a request to the view or the download endpoint (\<open>serve_file\<close> with either
  value of \<open>as_download\<close>) with public path \<open>p\<close>: when no row has \<open>file_path = p\<close> the
  handler raises the 404 error "File not found"; when the row exists and its \<open>expires_at\<close>
  is a time before the current time, it raises the 410 error and the row is still in the
  table afterwards; when the row exists, is not expired (no expiry, or one that is not
  before the current time) and no file is at its \<open>storage_path\<close>, it raises the 404 error
  "File not found in storage".
\<close>

theorem serve_file_error_responses:
  "(select_by_path (srv_db st) p = None \<longrightarrow>
      fst (serve_file e st p as_download) = Inl (HTTPException 404 ''File not found''))
   \<and> (select_by_path (srv_db st) p = Some r \<and> expires_at r = Some s \<and> s \<noteq> []
        \<and> fetch_date (env_tz e) s = Inr (Some t) \<and> t < env_now e \<longrightarrow>
      fst (serve_file e st p as_download) = Inl (HTTPException 410 ''File has expired'')
      \<and> select_by_path (srv_db (snd (serve_file e st p as_download))) p \<noteq> None)
   \<and> (select_by_path (srv_db st) p = Some r
        \<and> (expires_at r = None \<or> expires_at r = Some []
            \<or> (expires_at r = Some s \<and> fetch_date (env_tz e) s = Inr (Some t)
                \<and> \<not> t < env_now e))
        \<and> \<not> os_path_exists (srv_disk st) (storage_path r) \<longrightarrow>
      fst (serve_file e st p as_download)
        = Inl (HTTPException 404 ''File not found in storage''))"
proof (intro conjI impI)
  assume "select_by_path (srv_db st) p = None"
  then show "fst (serve_file e st p as_download) = Inl (HTTPException 404 ''File not found'')"
    by (simp add: serve_file_def get_file_absent)
next
  assume h: "select_by_path (srv_db st) p = Some r \<and> expires_at r = Some s \<and> s \<noteq> []
        \<and> fetch_date (env_tz e) s = Inr (Some t) \<and> t < env_now e"
  then have ex: "expired_check (env_tz e) (env_now e) r = Inr True"
    by (simp add: expired_check_parsed)
  from h ex show "fst (serve_file e st p as_download)
      = Inl (HTTPException 410 ''File has expired'')"
    by (simp add: serve_file_def get_file_present)
  from h ex show "select_by_path (srv_db (snd (serve_file e st p as_download))) p \<noteq> None"
    by (simp add: serve_file_def get_file_present select_after_update)
next
  assume h: "select_by_path (srv_db st) p = Some r
        \<and> (expires_at r = None \<or> expires_at r = Some []
            \<or> (expires_at r = Some s \<and> fetch_date (env_tz e) s = Inr (Some t)
                \<and> \<not> t < env_now e))
        \<and> \<not> os_path_exists (srv_disk st) (storage_path r)"
  then have "expired_check (env_tz e) (env_now e) r = Inr False"
    by (auto simp: expired_check_def)
  with h show "fst (serve_file e st p as_download)
      = Inl (HTTPException 404 ''File not found in storage'')"
    by (simp add: serve_file_def get_file_present)
qed

theorem serve_file_error_responses_witness:
  "fst (view_file demo_env demo_server ''nope'') = Inl (HTTPException 404 ''File not found'')
   \<and> fst (download_file demo_env demo_server ''old.txt'')
       = Inl (HTTPException 410 ''File has expired'')
   \<and> select_by_path (srv_db (snd (download_file demo_env demo_server ''old.txt''))) ''old.txt''
       \<noteq> None
   \<and> fst (view_file demo_env demo_server ''lost.txt'')
       = Inl (HTTPException 404 ''File not found in storage'')"
proof -
  have old: "expires_at (demo_row 2 ''old.txt'' (Some ''2020-01-01 00:00:00+00:00''))
      = Some ''2020-01-01 00:00:00+00:00''"
    by (simp add: demo_row_def)
  have lost: "expires_at (demo_row 3 ''lost.txt'' None) = None"
    by (simp add: demo_row_def)
  have a: "fst (serve_file demo_env demo_server ''nope'' False)
      = Inl (HTTPException 404 ''File not found'')"
    using serve_file_error_responses [of demo_server "''nope''" demo_env False]
      demo_select(4) by blast
  have b: "fst (serve_file demo_env demo_server ''old.txt'' True)
        = Inl (HTTPException 410 ''File has expired'')
      \<and> select_by_path (srv_db (snd (serve_file demo_env demo_server ''old.txt'' True)))
          ''old.txt'' \<noteq> None"
    using serve_file_error_responses [of demo_server "''old.txt''" demo_env True
        "demo_row 2 ''old.txt'' (Some ''2020-01-01 00:00:00+00:00'')"
        "''2020-01-01 00:00:00+00:00''" "utc_instant 2020 1 1 0 0 0 0"]
      demo_select(2) old fetch_date_2020 [of "env_tz demo_env"] utc_2020_before_demo_now
    by simp
  have c: "fst (serve_file demo_env demo_server ''lost.txt'' False)
      = Inl (HTTPException 404 ''File not found in storage'')"
    using serve_file_error_responses [of demo_server "''lost.txt''" demo_env False
        "demo_row 3 ''lost.txt'' None"]
      demo_select(3) lost demo_lost_missing by simp
  from a b c show ?thesis by (simp add: view_file_def download_file_def)
qed

lemma view_file_ok:
  assumes "select_by_path (srv_db st) p = Some r"
    and "expired_check (env_tz e) (env_now e) r = Inr False"
    and "storage_path r \<noteq> []"
    and "os_path_exists (srv_disk st) (storage_path r)"
  shows "\<not> isl (fst (view_file e st p))"
    and "snd (view_file e st p)
         = st\<lparr>srv_db := files_db_update_file_access (env_db_now e) (srv_db st) p,
               srv_tasks := srv_tasks st @ [UpdateFileAccess p]\<rparr>"
  using assms by (simp_all add: view_file_def serve_file_def get_file_present Let_def)

lemma run_pending_one:
  "srv_tasks st = [UpdateFileAccess p] \<Longrightarrow>
   run_pending e st = st\<lparr>srv_db := files_db_update_file_access (env_db_now e) (srv_db st) p,
                         srv_tasks := []\<rparr>"
  by (simp add: run_pending_def)

lemma view_then_task:
  assumes "select_by_path (srv_db st) p = Some r"
    and "expired_check (env_tz e) (env_now e) r = Inr False"
    and "storage_path r \<noteq> []"
    and "os_path_exists (srv_disk st) (storage_path r)"
    and "srv_tasks st = []"
  shows "run_pending e (snd (view_file e st p))
         = st\<lparr>srv_db := files_db_update_file_access (env_db_now e)
                          (files_db_update_file_access (env_db_now e) (srv_db st) p) p\<rparr>"
  using assms by (simp add: view_file_ok(2) run_pending_one)

lemma one_view_counts_two:
  assumes "select_by_path (srv_db st) p = Some r"
    and "expired_check (env_tz e) (env_now e) r = Inr False"
    and "storage_path r \<noteq> []"
    and "os_path_exists (srv_disk st) (storage_path r)"
    and "srv_tasks st = []"
  shows "select_by_path (srv_db (run_pending e (snd (view_file e st p)))) p
         = Some (r\<lparr>access_count := access_count r + 2,
                    last_accessed := Some (CURRENT_TIMESTAMP (env_db_now e))\<rparr>)"
  using assms select_Some_path [OF assms(1)]
  by (simp add: view_then_task select_after_update)

text \<open>
  Claim C2. One successful view counts the access twice: \<open>get_file\<close> increases
  \<open>access_count\<close> during the handler, and the task \<open>update_file_access\<close> that the handler
  creates increases it again when it runs. On the example server \<open>a.txt\<close> starts at 0; it
  is viewed, the waiting task runs, it is viewed again five seconds later and the waiting
  task runs: both views succeed and \<open>access_count\<close> is 4, not 2.
\<close>

theorem two_views_count_four:
  "\<not> isl (fst (view_file demo_env demo_server ''a.txt''))
   \<and> \<not> isl (fst (view_file demo_later
          (run_pending demo_env (snd (view_file demo_env demo_server ''a.txt''))) ''a.txt''))
   \<and> map_option access_count (select_by_path (srv_db demo_server) ''a.txt'') = Some 0
   \<and> map_option access_count
       (select_by_path
          (srv_db (run_pending demo_later (snd (view_file demo_later
             (run_pending demo_env (snd (view_file demo_env demo_server ''a.txt'')))
             ''a.txt''))))
          ''a.txt'') = Some 4"
proof -
  let ?r = "demo_row 1 ''a.txt'' None"
  have e1: "expired_check (env_tz demo_env) (env_now demo_env) ?r = Inr False"
    by (simp add: expired_check_def demo_row_def)
  have sp: "storage_path ?r \<noteq> []" "os_path_exists (srv_disk demo_server) (storage_path ?r)"
    "srv_tasks demo_server = []"
    by (simp_all add: demo_row_def os_path_exists_def demo_server_def)
  let ?s1 = "run_pending demo_env (snd (view_file demo_env demo_server ''a.txt''))"
  let ?r1 = "?r\<lparr>access_count := access_count ?r + 2,
                 last_accessed := Some (CURRENT_TIMESTAMP (env_db_now demo_env))\<rparr>"
  have s1: "?s1 = demo_server\<lparr>srv_db := files_db_update_file_access (env_db_now demo_env)
               (files_db_update_file_access (env_db_now demo_env) (srv_db demo_server) ''a.txt'')
               ''a.txt''\<rparr>"
    using demo_select(1) e1 sp by (rule view_then_task)
  have sel1: "select_by_path (srv_db ?s1) ''a.txt'' = Some ?r1"
    using demo_select(1) e1 sp by (rule one_view_counts_two)
  have e2: "expired_check (env_tz demo_later) (env_now demo_later) ?r1 = Inr False"
    by (simp add: expired_check_def demo_row_def)
  have sp2: "storage_path ?r1 \<noteq> []" "os_path_exists (srv_disk ?s1) (storage_path ?r1)"
    "srv_tasks ?s1 = []"
    using sp by (simp_all add: s1)
  have sel2: "select_by_path (srv_db (run_pending demo_later (snd (view_file demo_later ?s1 ''a.txt'')))) ''a.txt''
     = Some (?r1\<lparr>access_count := access_count ?r1 + 2,
                    last_accessed := Some (CURRENT_TIMESTAMP (env_db_now demo_later))\<rparr>)"
    using sel1 e2 sp2 by (rule one_view_counts_two)
  have v1: "\<not> isl (fst (view_file demo_env demo_server ''a.txt''))"
    using demo_select(1) e1 sp(1,2) by (rule view_file_ok(1))
  have v2: "\<not> isl (fst (view_file demo_later ?s1 ''a.txt''))"
    using sel1 e2 sp2(1,2) by (rule view_file_ok(1))
  from v1 v2 sel2 show ?thesis
    by (simp add: demo_select demo_row_def)
qed

section \<open>The upload routes\<close>

lemma CHUNK_pos: "0 < CHUNK"
  by (simp add: CHUNK_def)

lemma upload_loop_too_large:
  "(\<And>n. n \<le> file_size_limit \<Longrightarrow> werr n = None) \<Longrightarrow>
   fsize \<le> file_size_limit \<Longrightarrow> file_size_limit < fsize + length rest \<Longrightarrow>
   upload_loop werr rest fsize written = TooLarge"
proof (induction werr rest fsize written rule: upload_loop.induct)
  case (1 werr rest fsize written)
  from "1.prems" have ne: "rest \<noteq> []" by auto
  with CHUNK_pos have chunk: "take CHUNK rest \<noteq> []" by (cases rest) (auto simp: take_Cons')
  show ?case
  proof (cases "file_size_limit < fsize + length (take CHUNK rest)")
    case True
    with chunk show ?thesis by (subst upload_loop.simps) (simp add: Let_def)
  next
    case False
    have len: "length (take CHUNK rest) + length (drop CHUNK rest) = length rest"
      by simp
    from False have a: "fsize + length (take CHUNK rest) \<le> file_size_limit" by simp
    with "1.prems"(1) have w: "werr (fsize + length (take CHUNK rest)) = None" by blast
    from "1.prems"(3) len
    have b: "file_size_limit < fsize + length (take CHUNK rest) + length (drop CHUNK rest)"
      by linarith
    have "upload_loop werr (drop CHUNK rest) (fsize + length (take CHUNK rest))
            (written @ take CHUNK rest) = TooLarge"
      using "1.IH" [OF refl chunk _ w "1.prems"(1) a b] False by simp
    with chunk False w show ?thesis by (subst upload_loop.simps) (simp add: Let_def)
  qed
qed

lemma get_unique_loop_fresh: "\<not> os_path_exists d (get_unique_loop d base ext n)"
proof (induction d base ext n rule: get_unique_loop.induct)
  case (1 d base ext counter)
  then show ?case by (subst get_unique_loop.simps) simp
qed

lemma get_unique_path_fresh: "\<not> os_path_exists d (get_unique_path d p)"
  by (simp add: get_unique_path_def get_unique_loop_fresh split: prod.splits)

lemma upload_storage_path_fresh: "\<not> os_path_exists (srv_disk st) (upload_storage_path e st file)"
  by (simp add: upload_storage_path_def get_unique_path_fresh)

lemma remove_after_open:
  "\<not> os_path_exists d p \<Longrightarrow>
   \<exists>d'. os_remove (AList.update p (File []) d) p = Inr d' \<and> map_of d' = map_of d"
  by (auto simp: os_remove_def os_path_exists_def update_conv' delete_conv' fun_eq_iff)

lemma upload_file_refused:
  "env_open_error e (upload_storage_path e st file) = Some x \<Longrightarrow>
   upload_file e st file expiry_days
     = (Inl (upload_error (env_str e x (upload_storage_path e st file))),
        st\<lparr>srv_draws := srv_draws st + 1\<rparr>)"
  by (simp add: upload_file_def Let_def)

lemma demo_big_path:
  "upload_storage_path demo_env demo_server demo_big_upload = ''storage/upload-0.bin''"
proof -
  have "get_unique_path (srv_disk demo_server)
      (path_join STORAGE_DIR (get_safe_filename (env_uuid4 demo_env 0) (Some ''big.bin'')))
      = ''storage/upload-0.bin''"
    by code_simp
  then show ?thesis
    by (simp add: upload_storage_path_def demo_big_upload_def demo_server_def)
qed

lemma demo_long_path:
  "upload_storage_path demo_env demo_server demo_long_upload
     = ''storage/upload-0.'' @ replicate 300 CHR ''x''"
proof -
  have "get_unique_path (srv_disk demo_server)
      (path_join STORAGE_DIR (get_safe_filename (env_uuid4 demo_env 0) (Some demo_long_name)))
      = ''storage/upload-0.'' @ replicate 300 CHR ''x''"
    by code_simp
  then show ?thesis
    by (simp add: upload_storage_path_def demo_long_upload_def demo_server_def)
qed

lemma demo_long_refused:
  "env_open_error demo_env (''storage/upload-0.'' @ replicate 300 CHR ''x'') = Some OSError"
proof -
  have "demo_open_error (''storage/upload-0.'' @ replicate 300 CHR ''x'') = Some OSError"
    by code_simp
  then show ?thesis by (simp add: demo_env_def)
qed

lemma demo_big_opens: "env_open_error demo_env ''storage/upload-0.bin'' = None"
proof -
  have "demo_open_error ''storage/upload-0.bin'' = None"
    by code_simp
  then show ?thesis by (simp add: demo_env_def)
qed

text \<open>
  Claim C3, as amended. Take a single upload of more than 5 GiB (\<open>file_size_limit\<close>
  bytes). When the host opens the storage file and takes every write up to the limit, the
  handler raises the 413 error; afterwards the disk holds exactly what it held before the
  request, so the partly written file is gone, and the table and the waiting tasks are as
  before, so no row was inserted. When the host refuses to open the storage file, the
  handler raises the 500 error with the text of the refusal, and disk and table are as
  before.
\<close>

theorem upload_too_large:
  "file_size_limit < length (up_data file) \<longrightarrow>
     (env_open_error e (upload_storage_path e st file) = None
        \<and> (\<forall>n. n \<le> file_size_limit \<longrightarrow>
               env_write_error e (upload_storage_path e st file) n = None) \<longrightarrow>
      fst (upload_file e st file expiry_days)
        = Inl (HTTPException 413 ''File too large, max size is 5120.0MB'')
      \<and> map_of (srv_disk (snd (upload_file e st file expiry_days))) = map_of (srv_disk st)
      \<and> srv_db (snd (upload_file e st file expiry_days)) = srv_db st
      \<and> srv_tasks (snd (upload_file e st file expiry_days)) = srv_tasks st)
     \<and> (env_open_error e (upload_storage_path e st file) = Some x \<longrightarrow>
        fst (upload_file e st file expiry_days)
          = Inl (HTTPException 500 (''Error uploading file: ''
                   @ env_str e x (upload_storage_path e st file)))
        \<and> srv_disk (snd (upload_file e st file expiry_days)) = srv_disk st
        \<and> srv_db (snd (upload_file e st file expiry_days)) = srv_db st
        \<and> srv_tasks (snd (upload_file e st file expiry_days)) = srv_tasks st)"
proof (intro impI conjI)
  assume big: "file_size_limit < length (up_data file)"
    and ok: "env_open_error e (upload_storage_path e st file) = None
        \<and> (\<forall>n. n \<le> file_size_limit \<longrightarrow>
               env_write_error e (upload_storage_path e st file) n = None)"
  let ?sp = "upload_storage_path e st file"
  from big ok have loop: "upload_loop (env_write_error e ?sp) (up_data file) 0 [] = TooLarge"
    by (intro upload_loop_too_large) simp_all
  from remove_after_open [OF upload_storage_path_fresh [of st e "file"]]
  obtain d' where d': "os_remove (AList.update ?sp (File []) (srv_disk st)) ?sp = Inr d'"
      "map_of d' = map_of (srv_disk st)"
    by blast
  from ok loop d' have res: "upload_file e st file expiry_days
      = (Inl (HTTPException 413 ''File too large, max size is 5120.0MB''),
         st\<lparr>srv_draws := srv_draws st + 1, srv_disk := d'\<rparr>)"
    by (simp add: upload_file_def Let_def)
  show "fst (upload_file e st file expiry_days)
        = Inl (HTTPException 413 ''File too large, max size is 5120.0MB'')"
    by (simp add: res)
  show "map_of (srv_disk (snd (upload_file e st file expiry_days))) = map_of (srv_disk st)"
    by (simp add: res d')
  show "srv_db (snd (upload_file e st file expiry_days)) = srv_db st"
    by (simp add: res)
  show "srv_tasks (snd (upload_file e st file expiry_days)) = srv_tasks st"
    by (simp add: res)
next
  assume refused: "env_open_error e (upload_storage_path e st file) = Some x"
  note res = upload_file_refused [OF refused, of expiry_days]
  show "fst (upload_file e st file expiry_days)
          = Inl (HTTPException 500 (''Error uploading file: ''
                   @ env_str e x (upload_storage_path e st file)))"
    by (simp add: res upload_error_def)
  show "srv_disk (snd (upload_file e st file expiry_days)) = srv_disk st"
    by (simp add: res)
  show "srv_db (snd (upload_file e st file expiry_days)) = srv_db st"
    by (simp add: res)
  show "srv_tasks (snd (upload_file e st file expiry_days)) = srv_tasks st"
    by (simp add: res)
qed

theorem upload_too_large_witness:
  "file_size_limit < length (up_data demo_big_upload)
   \<and> fst (upload_file demo_env demo_server demo_big_upload None)
       = Inl (HTTPException 413 ''File too large, max size is 5120.0MB'')
   \<and> map_of (srv_disk (snd (upload_file demo_env demo_server demo_big_upload None)))
       = map_of (srv_disk demo_server)
   \<and> srv_db (snd (upload_file demo_env demo_server demo_big_upload None)) = srv_db demo_server
   \<and> file_size_limit < length (up_data demo_long_upload)
   \<and> status_of (projl (fst (upload_file demo_env demo_server demo_long_upload None))) = 500
   \<and> srv_disk (snd (upload_file demo_env demo_server demo_long_upload None))
       = srv_disk demo_server"
proof -
  have big: "file_size_limit < length (up_data demo_big_upload)"
    by (simp add: demo_big_upload_def)
  have ok: "env_open_error demo_env (upload_storage_path demo_env demo_server demo_big_upload)
        = None
      \<and> (\<forall>n. n \<le> file_size_limit \<longrightarrow>
             env_write_error demo_env
               (upload_storage_path demo_env demo_server demo_big_upload) n = None)"
    by (simp add: demo_big_path demo_big_opens) (simp add: demo_env_def)
  from upload_too_large [of demo_big_upload demo_env demo_server None] big ok
  have a: "fst (upload_file demo_env demo_server demo_big_upload None)
       = Inl (HTTPException 413 ''File too large, max size is 5120.0MB'')
     \<and> map_of (srv_disk (snd (upload_file demo_env demo_server demo_big_upload None)))
       = map_of (srv_disk demo_server)
     \<and> srv_db (snd (upload_file demo_env demo_server demo_big_upload None))
       = srv_db demo_server"
    by blast
  have long: "file_size_limit < length (up_data demo_long_upload)"
    by (simp add: demo_long_upload_def)
  have refused: "env_open_error demo_env
      (upload_storage_path demo_env demo_server demo_long_upload) = Some OSError"
    by (simp only: demo_long_path demo_long_refused)
  from upload_too_large [of demo_long_upload demo_env demo_server None OSError] long refused
  have b: "fst (upload_file demo_env demo_server demo_long_upload None)
       = Inl (HTTPException 500 (''Error uploading file: ''
                @ env_str demo_env OSError
                    (upload_storage_path demo_env demo_server demo_long_upload)))
     \<and> srv_disk (snd (upload_file demo_env demo_server demo_long_upload None))
       = srv_disk demo_server"
    by blast
  from big a long b show ?thesis by simp
qed

text \<open>
  An upload of more than 5 GiB whose file name has an extension of 300 characters: the
  stored name would be longer than the 255 bytes the file system takes, \<open>open\<close> raises
  OSError, and the handler answers with the 500 error, not with 413.
\<close>

theorem upload_refused_name:
  "file_size_limit < length (up_data demo_long_upload)
   \<and> up_filename demo_long_upload = Some (''a.'' @ replicate 300 CHR ''x'')
   \<and> fst (upload_file demo_env demo_server demo_long_upload None)
       = Inl (HTTPException 500
           (''Error uploading file: [Errno 36] File name too long: '' @ [CHR 0x27]
            @ ''storage/upload-0.'' @ replicate 300 CHR ''x'' @ [CHR 0x27]))"
proof -
  have long: "file_size_limit < length (up_data demo_long_upload)"
    and name: "up_filename demo_long_upload = Some (''a.'' @ replicate 300 CHR ''x'')"
    by (simp_all add: demo_long_upload_def demo_long_name_def)
  have refused: "env_open_error demo_env
      (upload_storage_path demo_env demo_server demo_long_upload) = Some OSError"
    by (simp only: demo_long_path demo_long_refused)
  have refusal: "env_str demo_env OSError (''storage/upload-0.'' @ replicate 300 CHR ''x'')
      = ''[Errno 36] File name too long: '' @ [CHR 0x27]
        @ ''storage/upload-0.'' @ replicate 300 CHR ''x'' @ [CHR 0x27]"
    by (simp add: demo_env_def demo_str_def)
  have "fst (upload_file demo_env demo_server demo_long_upload None)
       = Inl (HTTPException 500 (''Error uploading file: ''
           @ env_str demo_env OSError (''storage/upload-0.'' @ replicate 300 CHR ''x'')))"
    by (simp only: upload_file_refused [OF refused] fst_conv upload_error_def demo_long_path)
  with long name show ?thesis
    by (simp only: refusal append_assoc) simp
qed

lemma upload_loop_small:
  "rest \<noteq> [] \<Longrightarrow> length rest \<le> CHUNK \<Longrightarrow> fsize + length rest \<le> file_size_limit \<Longrightarrow>
   werr (fsize + length rest) = None \<Longrightarrow>
   upload_loop werr rest fsize written = Streamed (fsize + length rest) (written @ rest)"
  apply (subst upload_loop.simps)
  apply (subst upload_loop.simps)
  apply (simp add: Let_def)
  done

lemma count_results_response:
  "ResponseObject r \<in> set results \<Longrightarrow> count_results want results = Inl TypeError"
proof (induction results)
  case Nil
  then show ?case by simp
next
  case (Cons x xs)
  then show ?case by (cases x) (auto split: sum.splits)
qed

lemma upload_multiple_single:
  assumes "fst (upload_file e st f x) = Inr r"
  shows "fst (upload_multiple_files e st [f] x) = Inl (Unhandled TypeError)"
proof -
  obtain st' where "upload_file e st f x = (Inr r, st')"
    using assms by (cases "upload_file e st f x") simp
  then show ?thesis
    by (simp add: upload_multiple_files_def)
qed

lemma str_nat_0: "str_nat 0 = ''0''"
  by code_simp

lemma demo_safe_filename:
  "get_safe_filename (env_uuid4 demo_env 0) (Some ''b.txt'') = ''upload-0.txt''"
  by (simp add: get_safe_filename_def demo_env_def str_nat_0 splitext_def Let_def)

lemma demo_storage_path:
  "upload_storage_path demo_env demo_server demo_upload = ''storage/upload-0.txt''"
  by (simp add: upload_storage_path_def demo_safe_filename demo_upload_def
      get_unique_path_def path_join_def STORAGE_DIR_def startswith_def os_path_exists_def
      demo_server_def)

lemma demo_upload_opens: "env_open_error demo_env ''storage/upload-0.txt'' = None"
proof -
  have "demo_open_error ''storage/upload-0.txt'' = None"
    by code_simp
  then show ?thesis by (simp add: demo_env_def)
qed

lemma demo_loop:
  "upload_loop (env_write_error demo_env ''storage/upload-0.txt'') (up_data demo_upload) 0 []
     = Streamed 2 [104, 105]"
  using upload_loop_small [of "[104, 105]" 0 "env_write_error demo_env ''storage/upload-0.txt''" "[]"]
  by (simp add: demo_upload_def CHUNK_def file_size_limit_def demo_env_def)

lemma demo_upload_ok:
  "fst (upload_file demo_env demo_server demo_upload None)
    = Inr (JSONResponse 200 (upload_json demo_env ''b.txt'' 2 ''text/plain'' ''upload-0.txt'' None))"
proof -
  have draws: "srv_draws demo_server = 0" and name: "up_filename demo_upload = Some ''b.txt''"
    and ct: "up_content_type demo_upload = Some ''text/plain''"
    by (simp_all add: demo_server_def demo_upload_def)
  have fresh: "select_by_path (srv_db demo_server) ''upload-0.txt'' = None"
    by (simp add: select_by_path_def demo_server_def demo_row_def)
  show ?thesis
    by (simp add: upload_file_def Let_def draws name ct demo_safe_filename demo_storage_path
        demo_upload_opens demo_loop expiry_of_def resolve_content_type_def
        files_db_add_new_file_def fresh)
qed

text \<open>
  Claim C9. The endpoint collects the \<open>JSONResponse\<close> object of every upload that
  succeeded and then tests \<open>"error" in r\<close> on it, which raises TypeError: with one file
  that uploads successfully the endpoint ends in an unhandled TypeError (status 500)
  instead of the aggregate payload with \<open>uploaded_count = 1\<close>. Here \<open>b.txt\<close> is uploaded
  to the example server, alone through \<open>upload_file\<close> and as a list of one file.
\<close>

theorem upload_multiple_fails_on_success:
  "fst (upload_file demo_env demo_server demo_upload None)
     = Inr (JSONResponse 200
         (upload_json demo_env ''b.txt'' 2 ''text/plain'' ''upload-0.txt'' None))
   \<and> fst (upload_multiple_files demo_env demo_server [demo_upload] None)
       = Inl (Unhandled TypeError)"
  using demo_upload_ok upload_multiple_single [OF demo_upload_ok] by simp

section \<open>The admin routes\<close>

lemma compress_file_absent:
  "select_by_path (srv_db st) p = None \<Longrightarrow>
   fst (compress_file e st p body) = JSONResponse 500 (message ''Error compressing file'')"
  by (simp add: compress_file_def compress_file_body_def get_file_absent)

lemma compress_file_expired:
  "select_by_path (srv_db st) p = Some r \<Longrightarrow>
   expired_check (env_tz e) (env_now e) r = Inr True \<Longrightarrow>
   fst (compress_file e st p body) = JSONResponse 500 (message ''Error compressing file'')"
  by (simp add: compress_file_def compress_file_body_def get_file_present)

text \<open>
  Claim C4. The compress handler raises the 404 error for a path without a row and the 410
  error for an expired row, but both are raised inside the handler's \<open>try\<close>, whose
  \<open>except Exception\<close> takes them: the response has status 500 in both cases. Here the
  handler is run on a path that has no row and on the expired \<open>old.txt\<close>.
\<close>

theorem compress_file_answers_500:
  "resp_status (fst (compress_file demo_env demo_server ''nope''
       (BodyParams 75 None False False))) = 500
   \<and> resp_status (fst (compress_file demo_env demo_server ''old.txt''
       (BodyParams 75 None False False))) = 500"
  by (simp add: compress_file_absent compress_file_expired [OF demo_select(2) demo_old_expired]
      demo_select JSONResponse_def)

text \<open>
  Claim C5, as amended. For an accepted compress request (the row exists, it is not
  expired, the body gives the four parameters) the handler creates the re-encoding task and
  awaits it: when the handler returns, the task has run to its end and no task is left
  waiting. The response is the success acknowledgment whatever the task did: when the
  stored file is there and the encoder returns bytes, the file holds them at the return;
  when the encoder raises, the disk is as before and the response is the same.
\<close>

theorem compress_file_awaits_task:
  "select_by_path (srv_db st) p = Some r \<and> expired_check (env_tz e) (env_now e) r = Inr False \<longrightarrow>
     fst (compress_file e st p (BodyParams quality max_width to_webp lossless))
       = JSONResponse 200 (message ''File compressed successfully'')
     \<and> srv_tasks (snd (compress_file e st p (BodyParams quality max_width to_webp lossless)))
         = srv_tasks st
     \<and> srv_disk (snd (compress_file e st p (BodyParams quality max_width to_webp lossless)))
         = create_image_compression_task e (srv_disk st) (storage_path r)
             quality max_width to_webp lossless
     \<and> (map_of (srv_disk st) (storage_path r) = Some (File b)
          \<and> env_compress e b quality max_width to_webp lossless = Some out \<longrightarrow>
        map_of (srv_disk (snd (compress_file e st p
                  (BodyParams quality max_width to_webp lossless)))) (storage_path r)
          = Some (File out))
     \<and> (map_of (srv_disk st) (storage_path r) = Some (File b)
          \<and> env_compress e b quality max_width to_webp lossless = None \<longrightarrow>
        srv_disk (snd (compress_file e st p (BodyParams quality max_width to_webp lossless)))
          = srv_disk st)"
proof
  assume h: "select_by_path (srv_db st) p = Some r
      \<and> expired_check (env_tz e) (env_now e) r = Inr False"
  let ?res = "compress_file e st p (BodyParams quality max_width to_webp lossless)"
  have res: "?res = (JSONResponse 200 (message ''File compressed successfully''),
      st\<lparr>srv_db := files_db_update_file_access (env_db_now e) (srv_db st) p,
         srv_disk := create_image_compression_task e (srv_disk st) (storage_path r)
             quality max_width to_webp lossless\<rparr>)"
    using h by (simp add: compress_file_def compress_file_body_def get_file_present Let_def)
  have ok: "map_of (create_image_compression_task e (srv_disk st) (storage_path r)
             quality max_width to_webp lossless) (storage_path r) = Some (File out)"
    if "map_of (srv_disk st) (storage_path r) = Some (File b)
          \<and> env_compress e b quality max_width to_webp lossless = Some out"
    using that by (simp add: create_image_compression_task_def replace_file_def update_conv')
  have failed: "create_image_compression_task e (srv_disk st) (storage_path r)
             quality max_width to_webp lossless = srv_disk st"
    if "map_of (srv_disk st) (storage_path r) = Some (File b)
          \<and> env_compress e b quality max_width to_webp lossless = None"
    using that by (simp add: create_image_compression_task_def)
  from ok failed show "fst ?res = JSONResponse 200 (message ''File compressed successfully'')
     \<and> srv_tasks (snd ?res) = srv_tasks st
     \<and> srv_disk (snd ?res)
         = create_image_compression_task e (srv_disk st) (storage_path r)
             quality max_width to_webp lossless
     \<and> (map_of (srv_disk st) (storage_path r) = Some (File b)
          \<and> env_compress e b quality max_width to_webp lossless = Some out \<longrightarrow>
        map_of (srv_disk (snd ?res)) (storage_path r) = Some (File out))
     \<and> (map_of (srv_disk st) (storage_path r) = Some (File b)
          \<and> env_compress e b quality max_width to_webp lossless = None \<longrightarrow>
        srv_disk (snd ?res) = srv_disk st)"
    by (simp add: res)
qed

theorem compress_file_awaits_task_witness:
  "fst (compress_file demo_env demo_server ''a.txt'' (BodyParams 75 None False False))
     = JSONResponse 200 (message ''File compressed successfully'')
   \<and> srv_tasks (snd (compress_file demo_env demo_server ''a.txt''
         (BodyParams 75 None False False))) = []
   \<and> map_of (srv_disk (snd (compress_file demo_env demo_server ''a.txt''
         (BodyParams 75 None False False)))) ''storage/a.txt'' = Some (File [104])
   \<and> fst (compress_file
          (demo_env\<lparr>env_compress := (\<lambda>b quality max_width to_webp lossless. None)\<rparr>)
          demo_server ''a.txt'' (BodyParams 75 None False False))
       = JSONResponse 200 (message ''File compressed successfully'')
   \<and> srv_disk (snd (compress_file
          (demo_env\<lparr>env_compress := (\<lambda>b quality max_width to_webp lossless. None)\<rparr>)
          demo_server ''a.txt'' (BodyParams 75 None False False))) = srv_disk demo_server"
proof -
  let ?e = "demo_env\<lparr>env_compress := (\<lambda>b quality max_width to_webp lossless. None)\<rparr>"
  have e2: "expired_check (env_tz ?e) (env_now ?e) (demo_row 1 ''a.txt'' None) = Inr False"
    by (simp add: expired_check_def demo_row_def)
  have enc2: "env_compress ?e [104, 105] 75 None False False = None"
    by simp
  have e1: "expired_check (env_tz demo_env) (env_now demo_env) (demo_row 1 ''a.txt'' None) = Inr False"
    by (simp add: expired_check_def demo_row_def)
  have disk: "map_of (srv_disk demo_server) (storage_path (demo_row 1 ''a.txt'' None)) = Some (File [104, 105])"
    by (simp add: demo_server_def demo_row_def)
  have enc: "env_compress demo_env [104, 105] 75 None False False = Some [104]"
    by (simp add: demo_env_def)
  have sp: "storage_path (demo_row 1 ''a.txt'' None) = ''storage/a.txt''"
    by (simp add: demo_row_def)
  have t: "srv_tasks demo_server = []" by (simp add: demo_server_def)
  let ?res = "compress_file demo_env demo_server ''a.txt'' (BodyParams 75 None False False)"
  from compress_file_awaits_task [of demo_server "''a.txt''" "demo_row 1 ''a.txt'' None" demo_env
      75 None False False "[104, 105]" "[104]"] demo_select(1) e1
  have a: "fst ?res = JSONResponse 200 (message ''File compressed successfully'')"
    and b: "srv_tasks (snd ?res) = srv_tasks demo_server"
    and c: "map_of (srv_disk demo_server) (storage_path (demo_row 1 ''a.txt'' None))
              = Some (File [104, 105])
            \<and> env_compress demo_env [104, 105] 75 None False False = Some [104] \<longrightarrow>
          map_of (srv_disk (snd ?res)) (storage_path (demo_row 1 ''a.txt'' None))
            = Some (File [104])"
    by blast+
  from c disk enc have c': "map_of (srv_disk (snd ?res)) (storage_path (demo_row 1 ''a.txt'' None))
            = Some (File [104])"
    by blast
  from compress_file_awaits_task [of demo_server "''a.txt''" "demo_row 1 ''a.txt'' None" ?e
      75 None False False "[104, 105]"] demo_select(1) e2 disk enc2
  have d: "fst (compress_file ?e demo_server ''a.txt'' (BodyParams 75 None False False))
       = JSONResponse 200 (message ''File compressed successfully'')
     \<and> srv_disk (snd (compress_file ?e demo_server ''a.txt''
           (BodyParams 75 None False False))) = srv_disk demo_server"
    by blast
  from a b c' d show ?thesis by (simp add: sp t)
qed

text \<open>
  On the example server the stored bytes of \<open>a.txt\<close> are already the re-encoded ones when
  the handler returns its acknowledgment, and no task is waiting: the re-encoding is not
  left running behind the response.
\<close>

theorem compress_file_done_at_return:
  "fst (compress_file demo_env demo_server ''a.txt'' (BodyParams 75 None False False))
     = JSONResponse 200 (message ''File compressed successfully'')
   \<and> map_of (srv_disk demo_server) ''storage/a.txt'' = Some (File [104, 105])
   \<and> map_of (srv_disk (snd (compress_file demo_env demo_server ''a.txt''
         (BodyParams 75 None False False)))) ''storage/a.txt'' = Some (File [104])
   \<and> srv_tasks (snd (compress_file demo_env demo_server ''a.txt''
         (BodyParams 75 None False False))) = []"
proof -
  have e1: "expired_check (env_tz demo_env) (env_now demo_env) (demo_row 1 ''a.txt'' None) = Inr False"
    by (simp add: expired_check_def demo_row_def)
  have disk: "map_of (srv_disk demo_server) ''storage/a.txt'' = Some (File [104, 105])"
    by (simp add: demo_server_def)
  show ?thesis
    using demo_select(1) e1 disk
    by (simp add: compress_file_def compress_file_body_def get_file_present Let_def
        create_image_compression_task_def replace_file_def update_conv' demo_row_def demo_env_def)
       (simp add: demo_server_def)
qed

lemma demo_delete_ok: "\<not> isl (fst (delete_file demo_env demo_server ''a.txt''))"
proof -
  have "expired_check (env_tz demo_env) (env_now demo_env) (demo_row 1 ''a.txt'' None)
      = Inr False"
    by (simp add: expired_check_def demo_row_def)
  moreover have "os_remove (srv_disk demo_server) ''storage/a.txt''
      = Inr [(''storage/old.txt'', File [111])]"
    by (simp add: os_remove_def demo_server_def AList.delete_eq)
  moreover have "os_path_exists (srv_disk demo_server) ''storage/a.txt''"
    by (simp add: os_path_exists_def demo_server_def)
  ultimately show ?thesis
    by (simp add: delete_file_def get_file_present demo_select demo_row_def)
qed

text \<open>
  Claim C10. The delete and the compress handler both fetch the row with \<open>get_file\<close>,
  which counts an access. For a path \<open>p\<close> that has a row: after the compress handler,
  whatever its response, the row has its \<open>access_count\<close> increased by one and
  \<open>last_accessed\<close> set to the database's current timestamp; after the delete handler the
  same holds whenever the handler failed (with 410, 404 or 500), and when it succeeded the
  row is gone.
\<close>

theorem admin_lookup_counts_access:
  "select_by_path (srv_db st) p = Some r \<longrightarrow>
     select_by_path (srv_db (snd (compress_file e st p body))) p
       = Some (r\<lparr>access_count := access_count r + 1,
                  last_accessed := Some (CURRENT_TIMESTAMP (env_db_now e))\<rparr>)
     \<and> (isl (fst (delete_file e st p)) \<longrightarrow>
          select_by_path (srv_db (snd (delete_file e st p))) p
            = Some (r\<lparr>access_count := access_count r + 1,
                       last_accessed := Some (CURRENT_TIMESTAMP (env_db_now e))\<rparr>))
     \<and> (\<not> isl (fst (delete_file e st p)) \<longrightarrow>
          select_by_path (srv_db (snd (delete_file e st p))) p = None)"
proof (intro impI)
  assume r: "select_by_path (srv_db st) p = Some r"
  then have fp: "file_path r = p" by (rule select_Some_path)
  let ?t = "files_db_update_file_access (env_db_now e) (srv_db st) p"
  have sel: "select_by_path ?t p = Some (r\<lparr>access_count := access_count r + 1,
                  last_accessed := Some (CURRENT_TIMESTAMP (env_db_now e))\<rparr>)"
    using r fp by (simp add: select_after_update)
  have c: "srv_db (snd (compress_file e st p body)) = ?t"
    using r
    by (simp add: compress_file_def compress_file_body_def get_file_present Let_def
        split: sum.splits bool.splits body_reading.splits)
  have d1: "isl (fst (delete_file e st p)) \<Longrightarrow> srv_db (snd (delete_file e st p)) = ?t"
    using r
    by (auto simp: delete_file_def get_file_present Let_def
        split: sum.splits bool.splits if_splits)
  have d2: "\<not> isl (fst (delete_file e st p)) \<Longrightarrow>
      srv_db (snd (delete_file e st p)) = snd (files_db_delete_file ?t p)"
    using r
    by (auto simp: delete_file_def get_file_present Let_def
        split: sum.splits bool.splits if_splits)
  show "select_by_path (srv_db (snd (compress_file e st p body))) p
       = Some (r\<lparr>access_count := access_count r + 1,
                  last_accessed := Some (CURRENT_TIMESTAMP (env_db_now e))\<rparr>)
     \<and> (isl (fst (delete_file e st p)) \<longrightarrow>
          select_by_path (srv_db (snd (delete_file e st p))) p
            = Some (r\<lparr>access_count := access_count r + 1,
                       last_accessed := Some (CURRENT_TIMESTAMP (env_db_now e))\<rparr>))
     \<and> (\<not> isl (fst (delete_file e st p)) \<longrightarrow>
          select_by_path (srv_db (snd (delete_file e st p))) p = None)"
    using c d1 d2 sel by (simp add: select_after_delete)
qed

theorem admin_lookup_counts_access_witness:
  "fst (delete_file demo_env demo_server ''lost.txt'')
     = Inl (HTTPException 404 ''File not found in storage'')
   \<and> map_option access_count
       (select_by_path (srv_db (snd (delete_file demo_env demo_server ''lost.txt'')))
          ''lost.txt'') = Some 1
   \<and> resp_status (fst (compress_file demo_env demo_server ''old.txt''
        (BodyParams 75 None False False))) = 500
   \<and> map_option access_count
       (select_by_path (srv_db (snd (compress_file demo_env demo_server ''old.txt''
          (BodyParams 75 None False False)))) ''old.txt'') = Some 1
   \<and> \<not> isl (fst (delete_file demo_env demo_server ''a.txt''))
   \<and> select_by_path (srv_db (snd (delete_file demo_env demo_server ''a.txt''))) ''a.txt''
       = None"
proof -
  from admin_lookup_counts_access [of demo_server "''a.txt''" "demo_row 1 ''a.txt'' None" demo_env]
    demo_select(1) demo_delete_ok
  have gone: "select_by_path (srv_db (snd (delete_file demo_env demo_server ''a.txt'')))
      ''a.txt'' = None"
    by blast
  have d: "fst (delete_file demo_env demo_server ''lost.txt'')
      = Inl (HTTPException 404 ''File not found in storage'')"
    using demo_lost_missing
    by (simp add: delete_file_def get_file_present demo_select expired_check_def demo_row_def)
  then have "isl (fst (delete_file demo_env demo_server ''lost.txt''))"
    by simp
  with admin_lookup_counts_access [of demo_server "''lost.txt''"
      "demo_row 3 ''lost.txt'' None" demo_env] demo_select(3)
  have d': "map_option access_count
       (select_by_path (srv_db (snd (delete_file demo_env demo_server ''lost.txt'')))
          ''lost.txt'') = Some 1"
    by (simp add: demo_row_def)
  have c: "resp_status (fst (compress_file demo_env demo_server ''old.txt''
        (BodyParams 75 None False False))) = 500"
    by (simp add: compress_file_expired [OF demo_select(2) demo_old_expired] JSONResponse_def)
  from admin_lookup_counts_access [of demo_server "''old.txt''"
      "demo_row 2 ''old.txt'' (Some ''2020-01-01 00:00:00+00:00'')" demo_env
      "BodyParams 75 None False False"] demo_select(2)
  have c': "map_option access_count
       (select_by_path (srv_db (snd (compress_file demo_env demo_server ''old.txt''
          (BodyParams 75 None False False)))) ''old.txt'') = Some 1"
    by (simp add: demo_row_def)
  from d d' c c' gone demo_delete_ok show ?thesis by simp
qed

end
